theory Spec2Isabelle
  imports Main "HOL-Library.Sublist" "HOL-Library.Word"
begin

section \<open>The WASM proxy worker (cloudflare/wasm-proxy-worker.js)\<close>

text \<open>
  The worker is a single asynchronous request handler. Its pure helpers become HOL
  functions on strings; what the handler obtains from the platform (the edge cache, the
  network, the clock) is a record of functions, a platform call that throws returns
  \<open>Inl\<close> of the exception's message, and what the handler does to the outside (upstream
  fetches, cache writes) is a list of events returned next to the response. The durable
  key-value store of the rate limiter is a map that the handler returns updated.
\<close>

subsection \<open>JavaScript strings\<close>

text \<open>
  A string is a list of code units. \<open>url.pathname\<close> is serialised by the URL parser and is
  ASCII; header values are byte strings. \<open>toLowerCase\<close> therefore maps \<open>A\<close>..\<open>Z\<close> to
  \<open>a\<close>..\<open>z\<close> and leaves every other character alone.
\<close>

definition startsWith :: "string \<Rightarrow> string \<Rightarrow> bool" where
  "startsWith s p = prefix p s"

definition endsWith :: "string \<Rightarrow> string \<Rightarrow> bool" where
  "endsWith s p = prefix (rev p) (rev s)"

fun includesStr :: "string \<Rightarrow> string \<Rightarrow> bool" where
  \<comment> \<open>\<open>s.includes(p)\<close>\<close>
  "includesStr [] p = (p = [])"
| "includesStr (c # cs) p = (prefix p (c # cs) \<or> includesStr cs p)"

definition lowerChar :: "char \<Rightarrow> char" where
  "lowerChar c =
     (case map_of (zip ''ABCDEFGHIJKLMNOPQRSTUVWXYZ'' ''abcdefghijklmnopqrstuvwxyz'') c of
        Some d \<Rightarrow> d
      | None \<Rightarrow> c)"

definition toLowerCase :: "string \<Rightarrow> string" where
  "toLowerCase s = map lowerChar s"

definition lastIndexOf :: "string \<Rightarrow> char \<Rightarrow> int" where
  \<comment> \<open>the index of the last occurrence of the character, or \<open>-1\<close>\<close>
  "lastIndexOf s c =
     (if c \<in> set s
      then int (length s) - 1 - int (length (takeWhile (\<lambda>x. x \<noteq> c) (rev s)))
      else - 1)"

definition substring :: "string \<Rightarrow> int \<Rightarrow> string" where
  \<comment> \<open>\<open>s.substring(i)\<close>: a negative start is clamped to 0\<close>
  "substring s i = drop (nat (max 0 i)) s"

fun replaceFirst :: "string \<Rightarrow> string \<Rightarrow> string \<Rightarrow> string" where
  \<comment> \<open>\<open>s.replace(p, r)\<close> with a string pattern: only the first occurrence is replaced\<close>
  "replaceFirst [] p r = (if p = [] then r else [])"
| "replaceFirst (c # cs) p r =
     (if prefix p (c # cs) then r @ drop (length p) (c # cs)
      else c # replaceFirst cs p r)"

definition stripTrailingSlash :: "string \<Rightarrow> string" where
  \<comment> \<open>\<open>allowed.replace(/\/$/, '')\<close>\<close>
  "stripTrailingSlash s = (if endsWith s ''/'' then butlast s else s)"

definition digitChar :: "nat \<Rightarrow> char" where
  "digitChar d = ''0123456789'' ! d"

function natToString :: "nat \<Rightarrow> string" where
  "natToString n =
     (if n < 10 then [digitChar n] else natToString (n div 10) @ [digitChar (n mod 10)])"
  by pat_completeness auto
termination
  by (relation "measure (\<lambda>n. n)") auto

declare natToString.simps [simp del]

subsection \<open>Constants and gates\<close>

definition ALLOWED_ORIGINS :: "string list" where
  "ALLOWED_ORIGINS =
     [''https://www.bentopdf.com'', ''https://bentopdf.com'', ''https://bentopdf-32l.pages.dev'']"

definition MAX_FILE_SIZE_BYTES :: int where
  "MAX_FILE_SIZE_BYTES = 100 * 1024 * 1024"

definition RATE_LIMIT_MAX_REQUESTS :: nat where
  "RATE_LIMIT_MAX_REQUESTS = 100"

definition RATE_LIMIT_WINDOW_MS :: int where
  "RATE_LIMIT_WINDOW_MS = 60 * 1000"

definition CACHE_TTL_SECONDS :: nat where
  "CACHE_TTL_SECONDS = 604800"

definition ALLOWED_EXTENSIONS :: "string list" where
  "ALLOWED_EXTENSIONS =
     [''.js'', ''.mjs'', ''.wasm'', ''.data'', ''.py'', ''.so'', ''.zip'', ''.json'',
      ''.mem'', ''.asm.js'', ''.worker.js'', ''.html'', ''.gz'']"

definition falsy :: "string option \<Rightarrow> bool" where
  \<comment> \<open>\<open>!x\<close> for a value that is a string, \<open>null\<close> or \<open>undefined\<close>\<close>
  "falsy x = (case x of None \<Rightarrow> True | Some s \<Rightarrow> s = [])"

definition isAllowedOrigin :: "string option \<Rightarrow> bool" where
  "isAllowedOrigin origin =
     (case origin of
        None \<Rightarrow> True
      | Some orig \<Rightarrow>
          if orig = [] then True
          else list_ex (\<lambda>allowed. startsWith orig (stripTrailingSlash allowed)) ALLOWED_ORIGINS)"

definition fileExt :: "string \<Rightarrow> string" where
  \<comment> \<open>\<open>pathname.substring(pathname.lastIndexOf('.')).toLowerCase()\<close>\<close>
  "fileExt pathname = toLowerCase (substring pathname (lastIndexOf pathname CHR ''.''))"

definition isAllowedFile :: "string \<Rightarrow> bool" where
  "isAllowedFile pathname =
     (if fileExt pathname \<in> set ALLOWED_EXTENSIONS then True
      else if \<not> includesStr pathname ''.'' \<or> endsWith pathname ''/'' then True
      else False)"

subsection \<open>Requests, responses and the platform\<close>

type_synonym bytes = "8 word list"

datatype json = JString string | JNumber int | JBool bool | JObject "(string \<times> json) list"

datatype body =
    NullBody
  | TextBody string
  | JsonBody "(string \<times> json) list"  \<comment> \<open>\<open>JSON.stringify\<close> of an object literal, field by field\<close>
  | BytesBody bytes

record request =
  req_method :: string  \<comment> \<open>\<open>request.method\<close>\<close>
  req_pathname :: string  \<comment> \<open>\<open>new URL(request.url).pathname\<close>\<close>
  req_Origin :: "string option"  \<comment> \<open>\<open>request.headers.get('Origin')\<close>\<close>
  req_CF_Connecting_IP :: "string option"  \<comment> \<open>\<open>request.headers.get('CF-Connecting-IP')\<close>\<close>

record response =
  status :: nat
  headers :: "(string \<times> string) list"
  body :: body
  encodeBody :: "string option"

text \<open>A response as the network or the edge cache hands it to the worker.\<close>

record upstream_response =
  up_status :: nat
  up_statusText :: string
  up_headers :: "(string \<times> string) list"
  up_body :: "string + bytes"  \<comment> \<open>\<open>Inl\<close>: reading the body (\<open>arrayBuffer()\<close>) rejects\<close>

datatype cache_key = NewRequest string request  \<comment> \<open>\<open>new Request(targetUrl, request)\<close>\<close>

record platform =
  now :: int  \<comment> \<open>\<open>Date.now()\<close>, in milliseconds\<close>
  url_hostname :: "string \<Rightarrow> string + string"
    \<comment> \<open>\<open>new URL(u).hostname\<close>; \<open>Inl\<close> when \<open>u\<close> is not an absolute URL\<close>
  cache_match :: "cache_key \<Rightarrow> string + upstream_response option"
  cache_put :: "cache_key \<Rightarrow> upstream_response \<Rightarrow> string option"
    \<comment> \<open>\<open>Some\<close>: the write rejects\<close>
  net_fetch :: "string \<Rightarrow> string + upstream_response"

datatype event = Fetch string | CachePut cache_key upstream_response

record kv_entry =
  requests :: "int list"
  expirationTtl :: nat

type_synonym kv_store = "string \<rightharpoonup> kv_entry"

record env =
  LIBREOFFICE_SOURCE :: "string option"
  PYMUPDF_SOURCE :: "string option"
  GS_SOURCE :: "string option"
  CPDF_SOURCE :: "string option"
  RATE_LIMIT_KV :: "kv_store option"

record outcome =
  resp :: response
  kv_after :: "kv_store option"
  events :: "event list"

definition ok :: "upstream_response \<Rightarrow> bool" where
  \<comment> \<open>\<open>response.ok\<close>\<close>
  "ok r = (200 \<le> up_status r \<and> up_status r \<le> 299)"

definition headersGet :: "(string \<times> string) list \<Rightarrow> string \<Rightarrow> string option" where
  \<comment> \<open>\<open>headers.get(name)\<close>: header names compare without case\<close>
  "headersGet hs name = map_of (map (\<lambda>(k, v). (toLowerCase k, v)) hs) (toLowerCase name)"

definition headersSet ::
    "(string \<times> string) list \<Rightarrow> string \<Rightarrow> string \<Rightarrow> (string \<times> string) list" where
  "headersSet hs name v =
     filter (\<lambda>(k, _). toLowerCase k \<noteq> toLowerCase name) hs @ [(name, v)]"

definition responseInitError :: "nat \<Rightarrow> string option" where
  \<comment> \<open>\<open>new Response(body, {status})\<close> with a body: the constructor throws a RangeError for a
      status outside 200..599 and a TypeError for a null-body status\<close>
  "responseInitError st =
     (if st < 200 \<or> 599 < st
      then Some ''Responses may only be constructed with status codes in the range 200 to 599, inclusive.''
      else if st = 204 \<or> st = 205 \<or> st = 304
      then Some ''Response with null body status (101, 204, 205, or 304) cannot have a body.''
      else None)"

subsection \<open>parseInt\<close>

definition isWhiteSpace :: "char \<Rightarrow> bool" where
  \<comment> \<open>the white space \<open>parseInt\<close> skips, among the characters a header value can hold\<close>
  "isWhiteSpace c = (c \<in> set [CHR 0x09, CHR 0x0A, CHR 0x0B, CHR 0x0C, CHR 0x0D, CHR 0x20, CHR 0xA0])"

definition digitValue :: "char \<Rightarrow> nat option" where
  "digitValue c = map_of (zip ''0123456789'' [0, 1, 2, 3, 4, 5, 6, 7, 8, 9]) c"

definition isDigit :: "char \<Rightarrow> bool" where
  "isDigit c = (digitValue c \<noteq> None)"

definition digitsValue :: "string \<Rightarrow> nat" where
  "digitsValue ds = foldl (\<lambda>acc c. 10 * acc + (case digitValue c of Some d \<Rightarrow> d | None \<Rightarrow> 0)) 0 ds"

definition parseInt :: "string \<Rightarrow> int option" where
  \<comment> \<open>\<open>parseInt(s, 10)\<close>; \<open>None\<close> is \<open>NaN\<close>. The source only compares the result with a
      constant far below \<open>2^53\<close>, which the rounding of large values does not change.\<close>
  "parseInt s =
     (let t = dropWhile isWhiteSpace s;
          neg = (t \<noteq> [] \<and> hd t = CHR ''-'');
          u = (if t \<noteq> [] \<and> (hd t = CHR ''-'' \<or> hd t = CHR ''+'') then tl t else t);
          ds = takeWhile isDigit u
      in if ds = [] then None
         else Some (if neg then - int (digitsValue ds) else int (digitsValue ds)))"

definition contentLengthOf :: "upstream_response \<Rightarrow> int option" where
  \<comment> \<open>\<open>parseInt(response.headers.get('Content-Length') || '0', 10)\<close>\<close>
  "contentLengthOf response =
     parseInt (case headersGet (up_headers response) ''Content-Length'' of
                 None \<Rightarrow> ''0''
               | Some v \<Rightarrow> if v = [] then ''0'' else v)"

definition numGreater :: "int option \<Rightarrow> int \<Rightarrow> bool" where
  \<comment> \<open>\<open>x > m\<close> for a number \<open>x\<close> that may be \<open>NaN\<close>: every comparison with \<open>NaN\<close> is false\<close>
  "numGreater x m = (case x of None \<Rightarrow> False | Some n \<Rightarrow> n > m)"

subsection \<open>Helpers of the worker\<close>

definition corsHeaders :: "string option \<Rightarrow> (string \<times> string) list" where
  "corsHeaders origin =
     [(''Access-Control-Allow-Origin'',
         (case origin of None \<Rightarrow> ''*'' | Some orig \<Rightarrow> if orig = [] then ''*'' else orig)),
      (''Access-Control-Allow-Methods'', ''GET, HEAD, OPTIONS''),
      (''Access-Control-Allow-Headers'', ''Content-Type, Range, Cache-Control''),
      (''Access-Control-Expose-Headers'', ''Content-Length, Content-Range, Content-Type''),
      (''Access-Control-Max-Age'', ''86400'')]"

definition handleOptions :: "request \<Rightarrow> response" where
  "handleOptions request =
     \<lparr>status = 204, headers = corsHeaders (req_Origin request), body = NullBody, encodeBody = None\<rparr>"

definition contentTypes :: "(string \<times> string) list" where
  "contentTypes =
     [(''.js'', ''application/javascript''),
      (''.mjs'', ''application/javascript''),
      (''.wasm'', ''application/wasm''),
      (''.json'', ''application/json''),
      (''.data'', ''application/octet-stream''),
      (''.py'', ''text/x-python''),
      (''.so'', ''application/octet-stream''),
      (''.zip'', ''application/zip''),
      (''.mem'', ''application/octet-stream''),
      (''.html'', ''text/html'')]"

definition getContentType :: "string \<Rightarrow> string" where
  \<comment> \<open>called on the normalised path only, whose extension starts with \<open>.\<close> or \<open>/\<close>, so the
      lookup sees the table's own keys and nothing inherited\<close>
  "getContentType pathname =
     (case map_of contentTypes (fileExt pathname) of
        Some t \<Rightarrow> t
      | None \<Rightarrow> ''application/octet-stream'')"

definition jsonResponse :: "nat \<Rightarrow> (string \<times> json) list \<Rightarrow> string option \<Rightarrow> response" where
  \<comment> \<open>\<open>new Response(JSON.stringify({...}),
      {status, headers: {...corsHeaders(origin), 'Content-Type': 'application/json'}})\<close>\<close>
  "jsonResponse st members origin =
     \<lparr>status = st,
      headers = corsHeaders origin @ [(''Content-Type'', ''application/json'')],
      body = JsonBody members,
      encodeBody = None\<rparr>"

definition cacheControl :: string where
  "cacheControl = ''public, max-age='' @ natToString CACHE_TTL_SECONDS"

definition normalizeBase :: "string \<Rightarrow> string" where
  "normalizeBase sourceBaseUrl =
     (if endsWith sourceBaseUrl ''/'' then butlast sourceBaseUrl else sourceBaseUrl)"

definition normalizePath :: "string \<Rightarrow> string" where
  "normalizePath subpath = (if startsWith subpath ''/'' then subpath else ''/'' @ subpath)"

subsection \<open>The cache-aware fetcher\<close>

definition proxyRequest_emit ::
    "platform \<Rightarrow> upstream_response \<Rightarrow> string \<Rightarrow> string \<Rightarrow> string option \<Rightarrow> string + response" where
  \<comment> \<open>the end of the \<open>try\<close> block: read the body, build the response\<close>
  "proxyRequest_emit pf response targetUrl normalizedPath origin =
     (case up_body response of
        Inl e \<Rightarrow> Inl e
      | Inr bodyData \<Rightarrow>
          (case url_hostname pf targetUrl of
             Inl e \<Rightarrow> Inl e
           | Inr host \<Rightarrow>
               Inr \<lparr>status = 200,
                    headers = corsHeaders origin @
                      [(''Content-Type'', getContentType normalizedPath),
                       (''Content-Length'', natToString (length bodyData)),
                       (''Cache-Control'', cacheControl),
                       (''X-Proxied-From'', host)],
                    body = BytesBody bodyData,
                    encodeBody = None\<rparr>))"

definition proxyRequest_try ::
    "platform \<Rightarrow> request \<Rightarrow> string \<Rightarrow> string \<Rightarrow> string option
       \<Rightarrow> (string + response) \<times> event list" where
  \<comment> \<open>the \<open>try\<close> block: \<open>Inl\<close> is an exception on its way to the \<open>catch\<close>.
      \<open>new Request(targetUrl, request)\<close> throws for a URL that does not parse, as
      \<open>new URL(targetUrl)\<close> does. An event is recorded when the call is made, whatever
      the call then answers.\<close>
  "proxyRequest_try pf request targetUrl normalizedPath origin =
     (case url_hostname pf targetUrl of
        Inl e \<Rightarrow> (Inl e, [])
      | Inr _ \<Rightarrow>
          let cacheKey = NewRequest targetUrl request in
          (case cache_match pf cacheKey of
             Inl e \<Rightarrow> (Inl e, [])
           | Inr (Some cached) \<Rightarrow>
               (proxyRequest_emit pf cached targetUrl normalizedPath origin, [])
           | Inr None \<Rightarrow>
               (case net_fetch pf targetUrl of
                  Inl e \<Rightarrow> (Inl e, [Fetch targetUrl])
                | Inr response \<Rightarrow>
                    if \<not> ok response then
                      (case responseInitError (up_status response) of
                         Some e \<Rightarrow> (Inl e, [Fetch targetUrl])
                       | None \<Rightarrow>
                           (Inr (jsonResponse (up_status response)
                                  [(''error'', JString ''Failed to fetch resource''),
                                   (''status'', JNumber (int (up_status response))),
                                   (''statusText'', JString (up_statusText response)),
                                   (''targetUrl'', JString targetUrl)]
                                  origin),
                            [Fetch targetUrl]))
                    else
                      let contentLength = contentLengthOf response in
                      if numGreater contentLength MAX_FILE_SIZE_BYTES then
                        (Inr (jsonResponse 413
                               [(''error'', JString ''File too large''),
                                (''message'', JString (''File exceeds maximum size of '' @
                                   natToString (nat (MAX_FILE_SIZE_BYTES div 1024 div 1024)) @ ''MB''))]
                               origin),
                         [Fetch targetUrl])
                      else
                        let response' = response
                              \<lparr>up_headers := headersSet (up_headers response) ''Cache-Control'' cacheControl\<rparr>
                        in
                        if up_status response' = 200 then
                          (case cache_put pf cacheKey response' of
                             Some e \<Rightarrow> (Inl e, [Fetch targetUrl, CachePut cacheKey response'])
                           | None \<Rightarrow>
                               (proxyRequest_emit pf response' targetUrl normalizedPath origin,
                                [Fetch targetUrl, CachePut cacheKey response']))
                        else
                          (proxyRequest_emit pf response' targetUrl normalizedPath origin,
                           [Fetch targetUrl]))))"

definition proxyRequest ::
    "platform \<Rightarrow> request \<Rightarrow> string option \<Rightarrow> string \<Rightarrow> string option \<Rightarrow> response \<times> event list" where
  "proxyRequest pf request sourceBaseUrl subpath origin =
     (case sourceBaseUrl of
        None \<Rightarrow>
          (jsonResponse 503
             [(''error'', JString ''Source not configured''),
              (''message'', JString ''This WASM module source URL has not been configured.'')]
             origin, [])
      | Some base \<Rightarrow>
          if base = [] then
            (jsonResponse 503
               [(''error'', JString ''Source not configured''),
                (''message'', JString ''This WASM module source URL has not been configured.'')]
               origin, [])
          else
            let normalizedBase = normalizeBase base;
                normalizedPath = normalizePath subpath;
                targetUrl = normalizedBase @ normalizedPath
            in
            if \<not> isAllowedFile normalizedPath then
              (jsonResponse 403
                 [(''error'', JString ''Forbidden file type''),
                  (''message'', JString ''Only WASM-related file types are allowed.'')]
                 origin, [])
            else
              (case proxyRequest_try pf request targetUrl normalizedPath origin of
                 (Inr r, evs) \<Rightarrow> (r, evs)
               | (Inl e, evs) \<Rightarrow>
                   (jsonResponse 500
                      [(''error'', JString ''Proxy error''), (''message'', JString e)]
                      origin, evs)))"

subsection \<open>The compression-preserving fetcher\<close>

definition proxyLibreOfficeGz_try ::
    "platform \<Rightarrow> string \<Rightarrow> string \<Rightarrow> string option \<Rightarrow> (string + response) \<times> event list" where
  "proxyLibreOfficeGz_try pf targetUrl subpath origin =
     (case net_fetch pf targetUrl of
        Inl e \<Rightarrow> (Inl e, [Fetch targetUrl])
      | Inr response \<Rightarrow>
          if \<not> ok response then
            (case responseInitError (up_status response) of
               Some e \<Rightarrow> (Inl e, [Fetch targetUrl])
             | None \<Rightarrow>
                 (Inr (jsonResponse (up_status response)
                        [(''error'', JString ''Failed to fetch''),
                         (''status'', JNumber (int (up_status response))),
                         (''targetUrl'', JString targetUrl)]
                        origin),
                  [Fetch targetUrl]))
          else
            (case up_body response of
               Inl e \<Rightarrow> (Inl e, [Fetch targetUrl])
             | Inr gzipBody \<Rightarrow>
                 let contentType =
                       (if includesStr subpath ''soffice.wasm'' then ''application/wasm''
                        else ''application/octet-stream'')
                 in
                 (Inr \<lparr>status = 200,
                       headers = corsHeaders origin @
                         [(''Content-Type'', contentType),
                          (''Content-Encoding'', ''gzip''),
                          (''Content-Length'', natToString (length gzipBody)),
                          (''Cache-Control'', cacheControl)],
                       body = BytesBody gzipBody,
                       encodeBody = Some ''manual''\<rparr>,
                  [Fetch targetUrl])))"

definition proxyLibreOfficeGz ::
    "platform \<Rightarrow> request \<Rightarrow> string option \<Rightarrow> string \<Rightarrow> string option \<Rightarrow> response \<times> event list" where
  "proxyLibreOfficeGz pf request sourceBaseUrl subpath origin =
     (case sourceBaseUrl of
        None \<Rightarrow> (jsonResponse 503 [(''error'', JString ''Source not configured'')] origin, [])
      | Some base \<Rightarrow>
          if base = [] then
            (jsonResponse 503 [(''error'', JString ''Source not configured'')] origin, [])
          else
            let normalizedBase = normalizeBase base;
                normalizedPath = normalizePath subpath;
                targetUrl = normalizedBase @ normalizedPath
            in
            (case proxyLibreOfficeGz_try pf targetUrl subpath origin of
               (Inr r, evs) \<Rightarrow> (r, evs)
             | (Inl e, evs) \<Rightarrow>
                 (jsonResponse 500
                    [(''error'', JString ''Proxy error''), (''message'', JString e)]
                    origin, evs)))"

subsection \<open>The request handler\<close>

definition rateLimitKey :: "request \<Rightarrow> string" where
  "rateLimitKey request =
     ''wasm-ratelimit:'' @
       (case req_CF_Connecting_IP request of
          None \<Rightarrow> ''unknown''
        | Some ip \<Rightarrow> if ip = [] then ''unknown'' else ip)"

definition storedRequests :: "kv_store \<Rightarrow> string \<Rightarrow> int list" where
  \<comment> \<open>\<open>(await env.RATE_LIMIT_KV.get(key, {type: 'json'}))?.requests || []\<close>\<close>
  "storedRequests kv key = (case kv key of None \<Rightarrow> [] | Some d \<Rightarrow> requests d)"

definition rateLimit ::
    "platform \<Rightarrow> request \<Rightarrow> string option \<Rightarrow> kv_store \<Rightarrow> response option \<times> kv_store" where
  \<comment> \<open>the body of \<open>if (env.RATE_LIMIT_KV) {...}\<close>: \<open>Some\<close> is the early return. The store
      itself is taken to answer: the source has no handler for a store that throws.\<close>
  "rateLimit pf request origin kv =
     (let stored = storedRequests kv (rateLimitKey request);
          recentRequests = filter (\<lambda>t. now pf - t < RATE_LIMIT_WINDOW_MS) stored
      in
      if length recentRequests \<ge> RATE_LIMIT_MAX_REQUESTS then
        (Some \<lparr>status = 429,
               headers = corsHeaders origin @
                 [(''Content-Type'', ''application/json''), (''Retry-After'', ''60'')],
               body = JsonBody
                 [(''error'', JString ''Rate limit exceeded''),
                  (''message'', JString (''Maximum '' @ natToString RATE_LIMIT_MAX_REQUESTS @
                     '' requests per minute.''))],
               encodeBody = None\<rparr>,
         kv)
      else
        (None,
         kv(rateLimitKey request \<mapsto>
              \<lparr>requests = recentRequests @ [now pf], expirationTtl = 120\<rparr>)))"

definition healthResponse :: "env \<Rightarrow> string option \<Rightarrow> response" where
  "healthResponse env origin =
     jsonResponse 200
       [(''service'', JString ''BentoPDF WASM Proxy''),
        (''version'', JString ''2.0.0''),
        (''endpoints'', JObject
           [(''libreoffice'', JString ''/libreoffice/*''),
            (''pymupdf'', JString ''/pymupdf/*''),
            (''gs'', JString ''/gs/*''),
            (''cpdf'', JString ''/cpdf/*'')]),
        (''configured'', JObject
           [(''libreoffice'', JBool (\<not> falsy (LIBREOFFICE_SOURCE env))),
            (''pymupdf'', JBool (\<not> falsy (PYMUPDF_SOURCE env))),
            (''gs'', JBool (\<not> falsy (GS_SOURCE env))),
            (''cpdf'', JBool (\<not> falsy (CPDF_SOURCE env)))])]
       origin"

definition dispatch :: "platform \<Rightarrow> env \<Rightarrow> request \<Rightarrow> string option \<Rightarrow> response \<times> event list" where
  \<comment> \<open>the routes of the handler, after the guards\<close>
  "dispatch pf env request origin =
     (let pathname = req_pathname request in
      if startsWith pathname ''/libreoffice/'' then
        let subpath = replaceFirst pathname ''/libreoffice'' [] in
        if endsWith subpath ''.wasm'' \<or> endsWith subpath ''.data'' then
          proxyLibreOfficeGz pf request (LIBREOFFICE_SOURCE env) (subpath @ ''.gz'') origin
        else if endsWith subpath ''.gz'' then
          proxyLibreOfficeGz pf request (LIBREOFFICE_SOURCE env) subpath origin
        else
          proxyRequest pf request (LIBREOFFICE_SOURCE env) subpath origin
      else if startsWith pathname ''/pymupdf/'' then
        proxyRequest pf request (PYMUPDF_SOURCE env) (replaceFirst pathname ''/pymupdf'' []) origin
      else if startsWith pathname ''/gs/'' then
        proxyRequest pf request (GS_SOURCE env) (replaceFirst pathname ''/gs'' []) origin
      else if startsWith pathname ''/cpdf/'' then
        proxyRequest pf request (CPDF_SOURCE env) (replaceFirst pathname ''/cpdf'' []) origin
      else if pathname = ''/'' \<or> pathname = ''/health'' then
        (healthResponse env origin, [])
      else
        (jsonResponse 404
           [(''error'', JString ''Not Found''),
            (''message'', JString ''Use /libreoffice/*, /pymupdf/*, /gs/*, or /cpdf/* endpoints'')]
           origin, []))"

definition fetch :: "platform \<Rightarrow> env \<Rightarrow> request \<Rightarrow> outcome" where
  "fetch pf env request =
     (let origin = req_Origin request in
      if req_method request = ''OPTIONS'' then
        \<lparr>resp = handleOptions request, kv_after = RATE_LIMIT_KV env, events = []\<rparr>
      else if \<not> isAllowedOrigin origin then
        \<lparr>resp = \<lparr>status = 403,
                  headers = (''Content-Type'', ''application/json'') # corsHeaders origin,
                  body = JsonBody
                    [(''error'', JString ''Forbidden''),
                     (''message'', JString
                        ''Origin not allowed. Add your domain to ALLOWED_ORIGINS if self-hosting.'')],
                  encodeBody = None\<rparr>,
         kv_after = RATE_LIMIT_KV env, events = []\<rparr>
      else if req_method request \<noteq> ''GET'' \<and> req_method request \<noteq> ''HEAD'' then
        \<lparr>resp = \<lparr>status = 405, headers = corsHeaders origin,
                  body = TextBody ''Method not allowed'', encodeBody = None\<rparr>,
         kv_after = RATE_LIMIT_KV env, events = []\<rparr>
      else
        (case RATE_LIMIT_KV env of
           None \<Rightarrow>
             (case dispatch pf env request origin of
                (r, evs) \<Rightarrow> \<lparr>resp = r, kv_after = None, events = evs\<rparr>)
         | Some kv \<Rightarrow>
             (case rateLimit pf request origin kv of
                (Some limited, kv') \<Rightarrow> \<lparr>resp = limited, kv_after = Some kv', events = []\<rparr>
              | (None, kv') \<Rightarrow>
                  (case dispatch pf env request origin of
                     (r, evs) \<Rightarrow> \<lparr>resp = r, kv_after = Some kv', events = evs\<rparr>))))"

text \<open>Reading a response: the members of a JSON body, and a header by its name.\<close>

definition jsonMembers :: "response \<Rightarrow> (string \<times> json) list option" where
  "jsonMembers r = (case body r of JsonBody ms \<Rightarrow> Some ms | _ \<Rightarrow> None)"

definition hasMember :: "response \<Rightarrow> string \<Rightarrow> bool" where
  "hasMember r name = (case jsonMembers r of Some ms \<Rightarrow> name \<in> fst ` set ms | None \<Rightarrow> False)"

definition memberOf :: "response \<Rightarrow> string \<Rightarrow> json option" where
  "memberOf r name = (case jsonMembers r of Some ms \<Rightarrow> map_of ms name | None \<Rightarrow> None)"


subsection \<open>The specification's own words\<close>

text \<open>
  Three notions that the specification describes in prose, written down for comparison
  with the functions of the source: when an origin is on the allow-list, when the
  file-type gate admits a path, and when the name of a file before its \<open>.gz\<close> suffix is
  that of a binary module.
\<close>

definition originOnAllowList :: "string \<Rightarrow> bool" where
  "originOnAllowList orig =
     (\<exists>allowed \<in> set ALLOWED_ORIGINS. prefix (stripTrailingSlash allowed) orig)"

definition extensionOf :: "string \<Rightarrow> string" where
  \<comment> \<open>the substring after the last \<open>.\<close>\<close>
  "extensionOf p = rev (takeWhile (\<lambda>c. c \<noteq> CHR ''.'') (rev p))"

definition gateAdmits :: "string \<Rightarrow> bool" where
  "gateAdmits p =
     (CHR ''.'' # toLowerCase (extensionOf p) \<in> set ALLOWED_EXTENSIONS
      \<or> CHR ''.'' \<notin> set p
      \<or> suffix ''/'' p)"



text \<open>The bodies of the worker's error responses, as the theorem on them finds them.\<close>

definition errorShape :: "response \<Rightarrow> bool" where
  "errorShape r =
     (status r = 405 \<and> body r = TextBody ''Method not allowed''
      \<or> hasMember r ''error'' \<and> hasMember r ''message''
      \<or> hasMember r ''error'' \<and> hasMember r ''status'' \<and> hasMember r ''targetUrl''
      \<or> jsonMembers r = Some [(''error'', JString ''Source not configured'')])"

subsection \<open>Sample platforms, environments and requests\<close>

definition servingPlatform :: "upstream_response \<Rightarrow> platform" where
  \<comment> \<open>an empty edge cache and an upstream that answers every URL with \<open>u\<close>\<close>
  "servingPlatform u =
     \<lparr>now = 1700000000000,
      url_hostname = (\<lambda>_. Inr ''cdn.example.com''),
      cache_match = (\<lambda>_. Inr None),
      cache_put = (\<lambda>_ _. None),
      net_fetch = (\<lambda>_. Inr u)\<rparr>"

definition upstreamReply :: "nat \<Rightarrow> (string \<times> string) list \<Rightarrow> upstream_response" where
  "upstreamReply st hs =
     \<lparr>up_status = st, up_statusText = ''status text'', up_headers = hs, up_body = Inr [1, 2, 3]\<rparr>"

definition sampleEnv :: "kv_store option \<Rightarrow> env" where
  "sampleEnv kv =
     \<lparr>LIBREOFFICE_SOURCE = Some ''https://cdn.example.com/libreoffice/'',
      PYMUPDF_SOURCE = Some ''https://cdn.example.com/pymupdf'',
      GS_SOURCE = Some ''https://cdn.example.com/gs'',
      CPDF_SOURCE = None,
      RATE_LIMIT_KV = kv\<rparr>"

definition sampleRequest :: "string \<Rightarrow> string \<Rightarrow> string option \<Rightarrow> request" where
  "sampleRequest m p orig =
     \<lparr>req_method = m, req_pathname = p, req_Origin = orig, req_CF_Connecting_IP = None\<rparr>"

section \<open>Properties\<close>

subsection \<open>Strings\<close>

lemma endsWith_suffix: "endsWith s p = suffix p s"
  by (simp add: endsWith_def suffix_to_prefix)

lemma includesStr_char: "includesStr s [c] = (c \<in> set s)"
  by (induction s) auto

lemma replaceFirst_prefix: "prefix p s \<Longrightarrow> replaceFirst s p r = r @ drop (length p) s"
  by (cases s) auto

lemma lastIndexOf_append:
  assumes "c \<notin> set e"
  shows "lastIndexOf (q @ c # e) c = int (length q)"
proof -
  from assms have "takeWhile (\<lambda>x. x \<noteq> c) (rev e @ c # rev q) =
      rev e @ takeWhile (\<lambda>x. x \<noteq> c) (c # rev q)"
    by (intro takeWhile_append2) auto
  then show ?thesis
    by (simp add: lastIndexOf_def)
qed

lemma fileExt_dot:
  "CHR ''.'' \<notin> set e \<Longrightarrow> fileExt (q @ CHR ''.'' # e) = CHR ''.'' # toLowerCase e"
  by (simp add: fileExt_def lastIndexOf_append substring_def toLowerCase_def lowerChar_def)

lemma natToString_small: "n < 10 \<Longrightarrow> natToString n = [digitChar n]"
  by (simp add: natToString.simps)

lemma natToString_big:
  "\<not> n < 10 \<Longrightarrow> natToString n = natToString (n div 10) @ [digitChar (n mod 10)]"
  by (subst natToString.simps) simp

subsection \<open>The guards of the handler\<close>

lemma fetch_limited:
  assumes "RATE_LIMIT_KV env = Some kv"
    and "req_method request = ''GET'' \<or> req_method request = ''HEAD''"
    and "isAllowedOrigin (req_Origin request)"
  shows "fetch pf env request =
     (case rateLimit pf request (req_Origin request) kv of
        (Some limited, kv') \<Rightarrow> \<lparr>resp = limited, kv_after = Some kv', events = []\<rparr>
      | (None, kv') \<Rightarrow>
          (case dispatch pf env request (req_Origin request) of
             (r, evs) \<Rightarrow> \<lparr>resp = r, kv_after = Some kv', events = evs\<rparr>))"
  using assms by (auto simp add: fetch_def Let_def)

lemma fetch_unlimited:
  assumes "RATE_LIMIT_KV env = None"
    and "req_method request = ''GET'' \<or> req_method request = ''HEAD''"
    and "isAllowedOrigin (req_Origin request)"
  shows "fetch pf env request =
     (case dispatch pf env request (req_Origin request) of
        (r, evs) \<Rightarrow> \<lparr>resp = r, kv_after = None, events = evs\<rparr>)"
  using assms by (auto simp add: fetch_def Let_def)

subsection \<open>The rate limiter\<close>



lemma rateLimit_outcome:
  "rateLimit pf request origin kv =
     (let recent = filter (\<lambda>t. now pf - t < 60000) (storedRequests kv (rateLimitKey request))
      in if length recent \<ge> 100
         then (Some \<lparr>status = 429,
                 headers = corsHeaders origin @
                   [(''Content-Type'', ''application/json''), (''Retry-After'', ''60'')],
                 body = JsonBody
                   [(''error'', JString ''Rate limit exceeded''),
                    (''message'', JString ''Maximum 100 requests per minute.'')],
                 encodeBody = None\<rparr>, kv)
         else (None, kv(rateLimitKey request \<mapsto>
                 \<lparr>requests = recent @ [now pf], expirationTtl = 120\<rparr>)))"
  by (simp add: rateLimit_def Let_def RATE_LIMIT_WINDOW_MS_def RATE_LIMIT_MAX_REQUESTS_def
      natToString_small natToString_big digitChar_def)

text \<open>
  Claim C9. A request without a \<open>CF-Connecting-IP\<close> header is counted under the key
  \<open>wasm-ratelimit:unknown\<close>, the same key for every such request: the limiter reads the
  list under that key, answers 429 once it holds 100 timestamps of the last 60 seconds,
  and otherwise appends the current time to that same list. All clients without the
  header therefore draw on one budget.
\<close>

theorem C9_shared_key:
  assumes "req_CF_Connecting_IP request = None"
    and "RATE_LIMIT_KV env = Some kv"
    and "req_method request = ''GET'' \<or> req_method request = ''HEAD''"
    and "isAllowedOrigin (req_Origin request)"
  shows "rateLimitKey request = ''wasm-ratelimit:unknown'' \<and>
     (\<forall>other. req_CF_Connecting_IP other = None \<longrightarrow> rateLimitKey other = rateLimitKey request) \<and>
     (let recent = filter (\<lambda>t. now pf - t < 60000) (storedRequests kv ''wasm-ratelimit:unknown'');
          out = fetch pf env request
      in if length recent \<ge> 100
         then status (resp out) = 429 \<and> events out = [] \<and> kv_after out = Some kv
         else kv_after out =
                Some (kv(''wasm-ratelimit:unknown'' \<mapsto>
                  \<lparr>requests = recent @ [now pf], expirationTtl = 120\<rparr>)))"
proof -
  have key: "rateLimitKey request = ''wasm-ratelimit:unknown''"
    using assms(1) by (simp add: rateLimitKey_def)
  have same: "\<forall>other. req_CF_Connecting_IP other = None \<longrightarrow> rateLimitKey other = rateLimitKey request"
    using assms(1) by (simp add: rateLimitKey_def)
  show ?thesis
    unfolding fetch_limited [OF assms(2-4)] rateLimit_outcome
    using same by (simp add: key Let_def split: prod.split)
qed

theorem C9_shared_key_witness:
  "rateLimitKey (sampleRequest ''GET'' ''/gs/gs.js'' (Some ''https://bentopdf.com'')) =
     ''wasm-ratelimit:unknown''
   \<and> status (resp (fetch (servingPlatform (upstreamReply 200 []))
      (sampleEnv (Some [''wasm-ratelimit:unknown'' \<mapsto>
         \<lparr>requests = replicate 100 1699999990000, expirationTtl = 120\<rparr>]))
      (sampleRequest ''GET'' ''/gs/gs.js'' (Some ''https://bentopdf.com'')))) = 429
   \<and> kv_after (fetch (servingPlatform (upstreamReply 200 []))
      (sampleEnv (Some [''wasm-ratelimit:unknown'' \<mapsto>
         \<lparr>requests = [1699999990000, 1699999900000], expirationTtl = 120\<rparr>]))
      (sampleRequest ''GET'' ''/gs/gs.js'' (Some ''https://bentopdf.com''))) =
      Some [''wasm-ratelimit:unknown'' \<mapsto>
         \<lparr>requests = [1699999990000, 1700000000000], expirationTtl = 120\<rparr>]"
proof -
  let ?pf = "servingPlatform (upstreamReply 200 [])"
  let ?rq = "sampleRequest ''GET'' ''/gs/gs.js'' (Some ''https://bentopdf.com'')"
  let ?full = "[''wasm-ratelimit:unknown'' \<mapsto>
      \<lparr>requests = replicate 100 (1699999990000::int), expirationTtl = 120\<rparr>]"
  let ?some = "[''wasm-ratelimit:unknown'' \<mapsto>
      \<lparr>requests = [1699999990000, 1699999900000::int], expirationTtl = 120\<rparr>]"
  have ip: "req_CF_Connecting_IP ?rq = None"
    by (simp add: sampleRequest_def)
  have m: "req_method ?rq = ''GET'' \<or> req_method ?rq = ''HEAD''"
    by (simp add: sampleRequest_def)
  have o: "isAllowedOrigin (req_Origin ?rq)"
    by (simp add: sampleRequest_def isAllowedOrigin_def ALLOWED_ORIGINS_def startsWith_def
        stripTrailingSlash_def endsWith_def)
  have k1: "RATE_LIMIT_KV (sampleEnv (Some ?full)) = Some ?full"
    by (simp add: sampleEnv_def)
  have k2: "RATE_LIMIT_KV (sampleEnv (Some ?some)) = Some ?some"
    by (simp add: sampleEnv_def)
  have n: "now ?pf = 1700000000000"
    by (simp add: servingPlatform_def)
  from C9_shared_key [OF ip k1 m o, of ?pf] C9_shared_key [OF ip k2 m o, of ?pf]
  show ?thesis
    by (simp add: n storedRequests_def Let_def)
qed

subsection \<open>The origin guard\<close>

lemma isAllowedOrigin_iff:
  "isAllowedOrigin (Some orig) = (orig = [] \<or> originOnAllowList orig)"
  by (simp add: isAllowedOrigin_def originOnAllowList_def list_ex_iff startsWith_def)

text \<open>
  Claim C1, as stated, fails: the handler answers a preflight before it looks at the
  origin, so an \<open>OPTIONS\<close> request from an origin that is not on the allow-list gets 204
  and no body. And an \<open>Origin\<close> header with an empty value, which has no allow-listed
  origin as a prefix, is taken for no origin at all: the request is served.
\<close>

theorem C1_counterexample:
  "req_Origin (sampleRequest ''OPTIONS'' ''/pymupdf/pymupdf.wasm'' (Some ''https://evil.example''))
     = Some ''https://evil.example''
   \<and> \<not> originOnAllowList ''https://evil.example''
   \<and> status (resp (fetch (servingPlatform (upstreamReply 200 [])) (sampleEnv None)
        (sampleRequest ''OPTIONS'' ''/pymupdf/pymupdf.wasm'' (Some ''https://evil.example'')))) = 204
   \<and> body (resp (fetch (servingPlatform (upstreamReply 200 [])) (sampleEnv None)
        (sampleRequest ''OPTIONS'' ''/pymupdf/pymupdf.wasm'' (Some ''https://evil.example'')))) = NullBody
   \<and> req_Origin (sampleRequest ''GET'' ''/health'' (Some [])) = Some []
   \<and> \<not> originOnAllowList []
   \<and> status (resp (fetch (servingPlatform (upstreamReply 200 [])) (sampleEnv None)
        (sampleRequest ''GET'' ''/health'' (Some [])))) = 200"
proof -
  have preflight: "req_Origin (sampleRequest ''OPTIONS'' ''/pymupdf/pymupdf.wasm''
        (Some ''https://evil.example'')) = Some ''https://evil.example''"
      "\<not> originOnAllowList ''https://evil.example''"
      "status (resp (fetch (servingPlatform (upstreamReply 200 [])) (sampleEnv None)
        (sampleRequest ''OPTIONS'' ''/pymupdf/pymupdf.wasm'' (Some ''https://evil.example'')))) = 204"
      "body (resp (fetch (servingPlatform (upstreamReply 200 [])) (sampleEnv None)
        (sampleRequest ''OPTIONS'' ''/pymupdf/pymupdf.wasm'' (Some ''https://evil.example'')))) = NullBody"
    by (simp_all add: sampleRequest_def originOnAllowList_def ALLOWED_ORIGINS_def
        stripTrailingSlash_def endsWith_def fetch_def handleOptions_def)
  have empty: "req_Origin (sampleRequest ''GET'' ''/health'' (Some [])) = Some []"
      "\<not> originOnAllowList []"
    by (simp_all add: sampleRequest_def originOnAllowList_def ALLOWED_ORIGINS_def
        stripTrailingSlash_def endsWith_def)
  have "status (resp (fetch (servingPlatform (upstreamReply 200 [])) (sampleEnv None)
        (sampleRequest ''GET'' ''/health'' (Some [])))) = 200"
    by (simp add: sampleRequest_def sampleEnv_def fetch_def isAllowedOrigin_def dispatch_def
        startsWith_def healthResponse_def jsonResponse_def)
  with preflight empty show ?thesis
    by blast
qed

text \<open>
  Claim C1, amended. A request whose method is not \<open>OPTIONS\<close> and whose \<open>Origin\<close> header
  is not empty and has no allow-listed origin (its trailing slash stripped) as a prefix
  is answered with 403 and a JSON body that has an \<open>error\<close> member, whatever its path
  and whichever other method it has; nothing is fetched.
\<close>

theorem C1_origin_denied:
  assumes "req_method request \<noteq> ''OPTIONS''"
    and "req_Origin request = Some orig"
    and "orig \<noteq> []"
    and "\<not> originOnAllowList orig"
  shows "status (resp (fetch pf env request)) = 403
     \<and> hasMember (resp (fetch pf env request)) ''error''
     \<and> events (fetch pf env request) = []"
proof -
  have "\<not> isAllowedOrigin (req_Origin request)"
    using assms by (simp add: isAllowedOrigin_iff)
  with assms(1) show ?thesis
    by (simp add: fetch_def Let_def hasMember_def jsonMembers_def)
qed

theorem C1_origin_denied_witness:
  "req_method (sampleRequest ''GET'' ''/pymupdf/pymupdf.wasm'' (Some ''https://evil.example''))
     \<noteq> ''OPTIONS''
   \<and> \<not> originOnAllowList ''https://evil.example''
   \<and> status (resp (fetch (servingPlatform (upstreamReply 200 [])) (sampleEnv None)
        (sampleRequest ''GET'' ''/pymupdf/pymupdf.wasm'' (Some ''https://evil.example'')))) = 403"
proof -
  let ?rq = "sampleRequest ''GET'' ''/pymupdf/pymupdf.wasm'' (Some ''https://evil.example'')"
  have m: "req_method ?rq \<noteq> ''OPTIONS''"
    by (simp add: sampleRequest_def)
  have o: "req_Origin ?rq = Some ''https://evil.example''"
    by (simp add: sampleRequest_def)
  have ne: "''https://evil.example'' \<noteq> []"
    by simp
  have d: "\<not> originOnAllowList ''https://evil.example''"
    by (simp add: originOnAllowList_def ALLOWED_ORIGINS_def stripTrailingSlash_def endsWith_def)
  from C1_origin_denied [OF m o ne d] m d show ?thesis
    by simp
qed

subsection \<open>The compression-preserving fetcher\<close>



lemma cacheControl_value: "cacheControl = ''public, max-age=604800''"
  by (simp add: cacheControl_def CACHE_TTL_SECONDS_def natToString_small natToString_big
      digitChar_def)



lemma gz_success:
  assumes "sourceBaseUrl = Some base" and "base \<noteq> []"
    and "net_fetch pf (normalizeBase base @ normalizePath subpath) = Inr u"
    and "ok u" and "up_body u = Inr b"
  shows "fst (proxyLibreOfficeGz pf request sourceBaseUrl subpath origin) =
     \<lparr>status = 200,
      headers = corsHeaders origin @
        [(''Content-Type'',
            if includesStr subpath ''soffice.wasm'' then ''application/wasm''
            else ''application/octet-stream''),
         (''Content-Encoding'', ''gzip''),
         (''Content-Length'', natToString (length b)),
         (''Cache-Control'', cacheControl)],
      body = BytesBody b,
      encodeBody = Some ''manual''\<rparr>"
  using assms by (simp add: proxyLibreOfficeGz_def proxyLibreOfficeGz_try_def Let_def)









lemma fetch_dispatch:
  assumes "req_method request = ''GET'' \<or> req_method request = ''HEAD''"
    and "isAllowedOrigin (req_Origin request)"
    and "case RATE_LIMIT_KV env of
           None \<Rightarrow> True
         | Some kv \<Rightarrow>
             length (filter (\<lambda>t. now pf - t < 60000) (storedRequests kv (rateLimitKey request))) < 100"
  shows "resp (fetch pf env request) = fst (dispatch pf env request (req_Origin request))"
    and "events (fetch pf env request) = snd (dispatch pf env request (req_Origin request))"
proof -
  have "resp (fetch pf env request) = fst (dispatch pf env request (req_Origin request))
      \<and> events (fetch pf env request) = snd (dispatch pf env request (req_Origin request))"
  proof (cases "RATE_LIMIT_KV env")
    case None
    then show ?thesis
      by (simp add: fetch_unlimited [OF None assms(1,2)] split: prod.split)
  next
    case (Some kv)
    with assms(3) have "rateLimit pf request (req_Origin request) kv =
        (None, kv(rateLimitKey request \<mapsto>
           \<lparr>requests = filter (\<lambda>t. now pf - t < 60000) (storedRequests kv (rateLimitKey request))
                @ [now pf], expirationTtl = 120\<rparr>))"
      by (simp add: rateLimit_outcome Let_def)
    then show ?thesis
      by (simp add: fetch_limited [OF Some assms(1,2)] split: prod.split)
  qed
  then show "resp (fetch pf env request) = fst (dispatch pf env request (req_Origin request))"
    and "events (fetch pf env request) = snd (dispatch pf env request (req_Origin request))"
    by simp_all
qed








subsection \<open>The cache-aware fetcher\<close>

lemma emit_no_json:
  "proxyRequest_emit pf u url path origin = Inr r \<Longrightarrow>
     status r = 200 \<and> (\<exists>b. up_body u = Inr b \<and> body r = BytesBody b)"
  by (auto simp add: proxyRequest_emit_def split: sum.splits)

lemma emit_success:
  assumes "up_body u = Inr b" and "url_hostname pf url = Inr host"
  shows "proxyRequest_emit pf u url path origin =
     Inr \<lparr>status = 200,
          headers = corsHeaders origin @
            [(''Content-Type'', getContentType path),
             (''Content-Length'', natToString (length b)),
             (''Cache-Control'', cacheControl),
             (''X-Proxied-From'', host)],
          body = BytesBody b,
          encodeBody = None\<rparr>"
  using assms by (simp add: proxyRequest_emit_def)


lemma proxyRequest_configured:
  assumes "sourceBaseUrl = Some base" and "base \<noteq> []"
    and "isAllowedFile (normalizePath subpath)"
  shows "proxyRequest pf request sourceBaseUrl subpath origin =
     (case proxyRequest_try pf request (normalizeBase base @ normalizePath subpath)
             (normalizePath subpath) origin of
        (Inr r, evs) \<Rightarrow> (r, evs)
      | (Inl e, evs) \<Rightarrow>
          (jsonResponse 500 [(''error'', JString ''Proxy error''), (''message'', JString e)] origin,
           evs))"
  using assms by (simp add: proxyRequest_def Let_def)


lemma try_miss:
  assumes "url_hostname pf url = Inr host"
    and "cache_match pf (NewRequest url request) = Inr None"
    and "net_fetch pf url = Inr u"
  shows "proxyRequest_try pf request url path origin =
     (if \<not> ok u then
        (case responseInitError (up_status u) of
           Some e \<Rightarrow> (Inl e, [Fetch url])
         | None \<Rightarrow>
             (Inr (jsonResponse (up_status u)
                    [(''error'', JString ''Failed to fetch resource''),
                     (''status'', JNumber (int (up_status u))),
                     (''statusText'', JString (up_statusText u)),
                     (''targetUrl'', JString url)]
                    origin),
              [Fetch url]))
      else if numGreater (contentLengthOf u) MAX_FILE_SIZE_BYTES then
        (Inr (jsonResponse 413
               [(''error'', JString ''File too large''),
                (''message'', JString ''File exceeds maximum size of 100MB'')]
               origin),
         [Fetch url])
      else
        let u' = u\<lparr>up_headers := headersSet (up_headers u) ''Cache-Control'' cacheControl\<rparr> in
        if up_status u = 200 then
          (case cache_put pf (NewRequest url request) u' of
             Some e \<Rightarrow> (Inl e, [Fetch url, CachePut (NewRequest url request) u'])
           | None \<Rightarrow>
               (proxyRequest_emit pf u' url path origin,
                [Fetch url, CachePut (NewRequest url request) u']))
        else (proxyRequest_emit pf u' url path origin, [Fetch url]))"
  using assms
  by (simp add: proxyRequest_try_def Let_def MAX_FILE_SIZE_BYTES_def natToString_small
      natToString_big digitChar_def)


lemma try_miss_status:
  assumes "url_hostname pf url = Inr host"
    and "cache_match pf (NewRequest url request) = Inr None"
    and "net_fetch pf url = Inr u"
    and "ok u"
    and "\<not> numGreater (contentLengthOf u) MAX_FILE_SIZE_BYTES"
    and "up_status u = 200 \<longrightarrow>
           cache_put pf (NewRequest url request)
             (u\<lparr>up_headers := headersSet (up_headers u) ''Cache-Control'' cacheControl\<rparr>) = None"
    and "up_body u = Inr b"
  shows "\<exists>r. fst (proxyRequest_try pf request url path origin) = Inr r
     \<and> status r = 200 \<and> body r = BytesBody b"
  using assms
  by (simp add: try_miss [OF assms(1-3)] Let_def emit_success)

lemma try_hit:
  assumes "url_hostname pf url = Inr host"
    and "cache_match pf (NewRequest url request) = Inr (Some c)"
  shows "proxyRequest_try pf request url path origin =
     (proxyRequest_emit pf c url path origin, [])"
  using assms by (simp add: proxyRequest_try_def Let_def)


lemma try_payload:
  assumes "fst (proxyRequest_try pf request url path origin) = Inr r" and "body r = BytesBody b"
  shows "status r = 200"
proof -
  have e: "status r = 200" if "proxyRequest_emit pf c url path origin = Inr r" for c
    using emit_no_json [OF that] by simp
  from assms show ?thesis
    unfolding proxyRequest_try_def Let_def
    by (auto simp add: jsonResponse_def e split: sum.splits option.splits if_splits)
qed


lemma proxyRequest_payload:
  assumes "body (fst (proxyRequest pf request sourceBaseUrl subpath origin)) = BytesBody b"
  shows "status (fst (proxyRequest pf request sourceBaseUrl subpath origin)) = 200"
proof (cases "\<exists>base. sourceBaseUrl = Some base \<and> base \<noteq> [] \<and> isAllowedFile (normalizePath subpath)")
  case True
  then obtain base where c: "sourceBaseUrl = Some base" "base \<noteq> []"
      "isAllowedFile (normalizePath subpath)"
    by blast
  let ?t = "proxyRequest_try pf request (normalizeBase base @ normalizePath subpath)
      (normalizePath subpath) origin"
  obtain res evs where t: "?t = (res, evs)"
    by (cases ?t)
  show ?thesis
  proof (cases res)
    case (Inl e)
    with assms t show ?thesis
      by (simp add: proxyRequest_configured [OF c] jsonResponse_def)
  next
    case (Inr r)
    with t have "fst (proxyRequest pf request sourceBaseUrl subpath origin) = r"
      by (simp add: proxyRequest_configured [OF c])
    moreover from t Inr have "fst ?t = Inr r"
      by simp
    ultimately show ?thesis
      using assms try_payload by metis
  qed
next
  case False
  with assms show ?thesis
    by (auto simp add: proxyRequest_def Let_def jsonResponse_def split: option.splits if_splits)
qed

lemma gz_try_payload:
  assumes "fst (proxyLibreOfficeGz_try pf url subpath origin) = Inr r" and "body r = BytesBody b"
  shows "status r = 200"
  using assms unfolding proxyLibreOfficeGz_try_def Let_def
  by (auto simp add: jsonResponse_def split: sum.splits option.splits if_splits)

lemma gz_payload:
  assumes "body (fst (proxyLibreOfficeGz pf request sourceBaseUrl subpath origin)) = BytesBody b"
  shows "status (fst (proxyLibreOfficeGz pf request sourceBaseUrl subpath origin)) = 200"
proof (cases "\<exists>base. sourceBaseUrl = Some base \<and> base \<noteq> []")
  case True
  then obtain base where c: "sourceBaseUrl = Some base" "base \<noteq> []"
    by blast
  let ?t = "proxyLibreOfficeGz_try pf (normalizeBase base @ normalizePath subpath) subpath origin"
  obtain res evs where t: "?t = (res, evs)"
    by (cases ?t)
  show ?thesis
  proof (cases res)
    case (Inl e)
    with assms t c show ?thesis
      by (simp add: proxyLibreOfficeGz_def Let_def jsonResponse_def)
  next
    case (Inr r)
    with t c have "fst (proxyLibreOfficeGz pf request sourceBaseUrl subpath origin) = r"
      by (simp add: proxyLibreOfficeGz_def Let_def)
    moreover from t Inr have "fst ?t = Inr r"
      by simp
    ultimately show ?thesis
      using assms gz_try_payload by metis
  qed
next
  case False
  with assms show ?thesis
    by (auto simp add: proxyLibreOfficeGz_def Let_def jsonResponse_def split: option.splits if_splits)
qed

text \<open>
  Claim C10. A request that either fetcher serves successfully is answered with status
  200, whatever success status the upstream gave: for the cache-aware fetcher on a cache
  miss with an upstream status anywhere in 200..299 (206 included) and on a cache hit,
  for the compression-preserving fetcher with an upstream status in 200..299. In
  general, every response of either fetcher that carries a payload has status 200.
\<close>

theorem C10_success_is_200:
  "(sourceBaseUrl = Some base \<and> base \<noteq> [] \<and> isAllowedFile (normalizePath subpath)
      \<and> url_hostname pf (normalizeBase base @ normalizePath subpath) = Inr host
      \<and> cache_match pf (NewRequest (normalizeBase base @ normalizePath subpath) request) = Inr None
      \<and> net_fetch pf (normalizeBase base @ normalizePath subpath) = Inr u
      \<and> 200 \<le> up_status u \<and> up_status u \<le> 299
      \<and> \<not> numGreater (contentLengthOf u) MAX_FILE_SIZE_BYTES
      \<and> (up_status u = 200 \<longrightarrow>
           cache_put pf (NewRequest (normalizeBase base @ normalizePath subpath) request)
             (u\<lparr>up_headers := headersSet (up_headers u) ''Cache-Control'' cacheControl\<rparr>) = None)
      \<and> up_body u = Inr b
      \<longrightarrow> status (fst (proxyRequest pf request sourceBaseUrl subpath origin)) = 200
        \<and> body (fst (proxyRequest pf request sourceBaseUrl subpath origin)) = BytesBody b)
   \<and> (sourceBaseUrl = Some base \<and> base \<noteq> [] \<and> isAllowedFile (normalizePath subpath)
      \<and> url_hostname pf (normalizeBase base @ normalizePath subpath) = Inr host
      \<and> cache_match pf (NewRequest (normalizeBase base @ normalizePath subpath) request) = Inr (Some u)
      \<and> up_body u = Inr b
      \<longrightarrow> status (fst (proxyRequest pf request sourceBaseUrl subpath origin)) = 200
        \<and> body (fst (proxyRequest pf request sourceBaseUrl subpath origin)) = BytesBody b)
   \<and> (sourceBaseUrl = Some base \<and> base \<noteq> []
      \<and> net_fetch pf (normalizeBase base @ normalizePath subpath) = Inr u
      \<and> 200 \<le> up_status u \<and> up_status u \<le> 299
      \<and> up_body u = Inr b
      \<longrightarrow> status (fst (proxyLibreOfficeGz pf request sourceBaseUrl subpath origin)) = 200
        \<and> body (fst (proxyLibreOfficeGz pf request sourceBaseUrl subpath origin)) = BytesBody b)
   \<and> (body (fst (proxyRequest pf request sourceBaseUrl subpath origin)) = BytesBody b
      \<longrightarrow> status (fst (proxyRequest pf request sourceBaseUrl subpath origin)) = 200)
   \<and> (body (fst (proxyLibreOfficeGz pf request sourceBaseUrl subpath origin)) = BytesBody b
      \<longrightarrow> status (fst (proxyLibreOfficeGz pf request sourceBaseUrl subpath origin)) = 200)"
proof (intro conjI impI)
  let ?url = "normalizeBase base @ normalizePath subpath"
  {
    assume a: "sourceBaseUrl = Some base \<and> base \<noteq> [] \<and> isAllowedFile (normalizePath subpath)
      \<and> url_hostname pf ?url = Inr host
      \<and> cache_match pf (NewRequest ?url request) = Inr None
      \<and> net_fetch pf ?url = Inr u
      \<and> 200 \<le> up_status u \<and> up_status u \<le> 299
      \<and> \<not> numGreater (contentLengthOf u) MAX_FILE_SIZE_BYTES
      \<and> (up_status u = 200 \<longrightarrow>
           cache_put pf (NewRequest ?url request)
             (u\<lparr>up_headers := headersSet (up_headers u) ''Cache-Control'' cacheControl\<rparr>) = None)
      \<and> up_body u = Inr b"
    then have k: "ok u"
      by (simp add: ok_def)
    from a k obtain r where r: "fst (proxyRequest_try pf request ?url (normalizePath subpath) origin) = Inr r"
        "status r = 200" "body r = BytesBody b"
      using try_miss_status [of pf ?url host request u b "normalizePath subpath" origin] by blast
    from r(1) obtain evs where
        "proxyRequest_try pf request ?url (normalizePath subpath) origin = (Inr r, evs)"
      by (cases "proxyRequest_try pf request ?url (normalizePath subpath) origin") simp
    with a have "fst (proxyRequest pf request sourceBaseUrl subpath origin) = r"
      by (simp add: proxyRequest_configured)
    with r show "status (fst (proxyRequest pf request sourceBaseUrl subpath origin)) = 200"
      and "body (fst (proxyRequest pf request sourceBaseUrl subpath origin)) = BytesBody b"
      by simp_all
  }
  {
    assume a: "sourceBaseUrl = Some base \<and> base \<noteq> [] \<and> isAllowedFile (normalizePath subpath)
      \<and> url_hostname pf ?url = Inr host
      \<and> cache_match pf (NewRequest ?url request) = Inr (Some u)
      \<and> up_body u = Inr b"
    then have "fst (proxyRequest pf request sourceBaseUrl subpath origin) =
        \<lparr>status = 200,
          headers = corsHeaders origin @
            [(''Content-Type'', getContentType (normalizePath subpath)),
             (''Content-Length'', natToString (length b)),
             (''Cache-Control'', cacheControl),
             (''X-Proxied-From'', host)],
          body = BytesBody b,
          encodeBody = None\<rparr>"
      by (simp add: proxyRequest_configured try_hit [of pf ?url host request u] emit_success)
    then show "status (fst (proxyRequest pf request sourceBaseUrl subpath origin)) = 200"
      and "body (fst (proxyRequest pf request sourceBaseUrl subpath origin)) = BytesBody b"
      by simp_all
  }
  {
    assume a: "sourceBaseUrl = Some base \<and> base \<noteq> []
      \<and> net_fetch pf ?url = Inr u
      \<and> 200 \<le> up_status u \<and> up_status u \<le> 299
      \<and> up_body u = Inr b"
    then have k: "ok u"
      by (simp add: ok_def)
    from a k have s: "fst (proxyLibreOfficeGz pf request sourceBaseUrl subpath origin) =
       \<lparr>status = 200,
        headers = corsHeaders origin @
          [(''Content-Type'',
              if includesStr subpath ''soffice.wasm'' then ''application/wasm''
              else ''application/octet-stream''),
           (''Content-Encoding'', ''gzip''),
           (''Content-Length'', natToString (length b)),
           (''Cache-Control'', cacheControl)],
        body = BytesBody b,
        encodeBody = Some ''manual''\<rparr>"
      using gz_success [of sourceBaseUrl base pf subpath u b request origin] by blast
    show "status (fst (proxyLibreOfficeGz pf request sourceBaseUrl subpath origin)) = 200"
      and "body (fst (proxyLibreOfficeGz pf request sourceBaseUrl subpath origin)) = BytesBody b"
      by (simp_all add: s)
  }
  {
    assume "body (fst (proxyRequest pf request sourceBaseUrl subpath origin)) = BytesBody b"
    then show "status (fst (proxyRequest pf request sourceBaseUrl subpath origin)) = 200"
      by (rule proxyRequest_payload)
  }
  {
    assume "body (fst (proxyLibreOfficeGz pf request sourceBaseUrl subpath origin)) = BytesBody b"
    then show "status (fst (proxyLibreOfficeGz pf request sourceBaseUrl subpath origin)) = 200"
      by (rule gz_payload)
  }
qed


lemma parseInt_zero: "parseInt ''0'' = Some 0"
  by (simp add: parseInt_def isWhiteSpace_def isDigit_def digitValue_def digitsValue_def Let_def)

lemma contentLengthOf_absent:
  "headersGet (up_headers u) ''Content-Length'' = None \<Longrightarrow> contentLengthOf u = Some 0"
  by (simp add: contentLengthOf_def parseInt_zero)

lemma isAllowedFile_js: "isAllowedFile ''/gs.js''"
  by (simp add: isAllowedFile_def fileExt_def lastIndexOf_def substring_def toLowerCase_def
      lowerChar_def ALLOWED_EXTENSIONS_def)

theorem C10_success_is_200_witness:
  "up_status (upstreamReply 206 []) = 206
   \<and> status (fst (proxyRequest (servingPlatform (upstreamReply 206 []))
        (sampleRequest ''GET'' ''/gs/gs.js'' None) (Some ''https://cdn.example.com/gs'')
        ''/gs.js'' None)) = 200
   \<and> status (fst (proxyLibreOfficeGz (servingPlatform (upstreamReply 206 []))
        (sampleRequest ''GET'' ''/libreoffice/soffice.data'' None)
        (Some ''https://cdn.example.com/libreoffice'') ''/soffice.data.gz'' None)) = 200"
proof -
  let ?u = "upstreamReply 206 []"
  let ?pf = "servingPlatform ?u"
  have st: "up_status ?u = 206" and bd: "up_body ?u = Inr [1, 2, 3]"
    by (simp_all add: upstreamReply_def)
  have cl: "\<not> numGreater (contentLengthOf ?u) MAX_FILE_SIZE_BYTES"
    by (simp add: contentLengthOf_absent upstreamReply_def headersGet_def numGreater_def
        MAX_FILE_SIZE_BYTES_def)
  have np: "normalizePath ''/gs.js'' = ''/gs.js''"
    by (simp add: normalizePath_def startsWith_def)
  have pf: "url_hostname ?pf x = Inr ''cdn.example.com''" "cache_match ?pf k = Inr None"
      "net_fetch ?pf x = Inr ?u" for x k
    by (simp_all add: servingPlatform_def)
  from C10_success_is_200 [where sourceBaseUrl = "Some ''https://cdn.example.com/gs''"
      and base = "''https://cdn.example.com/gs''" and subpath = "''/gs.js''" and pf = ?pf
      and host = "''cdn.example.com''" and u = ?u and b = "[1, 2, 3]"
      and request = "sampleRequest ''GET'' ''/gs/gs.js'' None" and origin = None]
  have one: "status (fst (proxyRequest ?pf (sampleRequest ''GET'' ''/gs/gs.js'' None)
      (Some ''https://cdn.example.com/gs'') ''/gs.js'' None)) = 200"
    by (simp add: st bd cl np pf isAllowedFile_js)
  from C10_success_is_200 [where sourceBaseUrl = "Some ''https://cdn.example.com/libreoffice''"
      and base = "''https://cdn.example.com/libreoffice''" and subpath = "''/soffice.data.gz''"
      and pf = ?pf and u = ?u and b = "[1, 2, 3]"
      and request = "sampleRequest ''GET'' ''/libreoffice/soffice.data'' None" and origin = None]
  have two: "status (fst (proxyLibreOfficeGz ?pf (sampleRequest ''GET'' ''/libreoffice/soffice.data'' None)
      (Some ''https://cdn.example.com/libreoffice'') ''/soffice.data.gz'' None)) = 200"
    by (simp add: st bd pf)
  from st one two show ?thesis
    by simp
qed

text \<open>
  Claim C8. An upstream response without a \<open>Content-Length\<close> header has the declared
  length 0 in the size check of the cache-aware fetcher, which is not above the
  maximum, so the answer is never the \<open>File too large\<close> rejection, whatever the length
  of the body. Such a response with status 200 is handed to the cache, and a
  successful one whose body arrives is forwarded whole with status 200.
\<close>

theorem C8_no_content_length:
  assumes "sourceBaseUrl = Some base" and "base \<noteq> []"
    and "isAllowedFile (normalizePath subpath)"
    and "url_hostname pf (normalizeBase base @ normalizePath subpath) = Inr host"
    and "cache_match pf (NewRequest (normalizeBase base @ normalizePath subpath) request) = Inr None"
    and "net_fetch pf (normalizeBase base @ normalizePath subpath) = Inr u"
    and "headersGet (up_headers u) ''Content-Length'' = None"
  shows "contentLengthOf u = Some 0
     \<and> \<not> numGreater (contentLengthOf u) MAX_FILE_SIZE_BYTES
     \<and> memberOf (fst (proxyRequest pf request sourceBaseUrl subpath origin)) ''error''
          \<noteq> Some (JString ''File too large'')
     \<and> (up_status u = 200 \<longrightarrow>
          snd (proxyRequest pf request sourceBaseUrl subpath origin) =
            [Fetch (normalizeBase base @ normalizePath subpath),
             CachePut (NewRequest (normalizeBase base @ normalizePath subpath) request)
               (u\<lparr>up_headers := headersSet (up_headers u) ''Cache-Control'' cacheControl\<rparr>)])
     \<and> (200 \<le> up_status u \<and> up_status u \<le> 299 \<and> up_body u = Inr b
          \<and> (up_status u = 200 \<longrightarrow>
               cache_put pf (NewRequest (normalizeBase base @ normalizePath subpath) request)
                 (u\<lparr>up_headers := headersSet (up_headers u) ''Cache-Control'' cacheControl\<rparr>) = None)
          \<longrightarrow> status (fst (proxyRequest pf request sourceBaseUrl subpath origin)) = 200
            \<and> body (fst (proxyRequest pf request sourceBaseUrl subpath origin)) = BytesBody b)"
proof -
  let ?url = "normalizeBase base @ normalizePath subpath"
  let ?u' = "u\<lparr>up_headers := headersSet (up_headers u) ''Cache-Control'' cacheControl\<rparr>"
  let ?t = "proxyRequest_try pf request ?url (normalizePath subpath) origin"
  note conf = proxyRequest_configured [OF assms(1-3), of pf request origin]
  note miss = try_miss [OF assms(4-6), of "normalizePath subpath" origin]
  have zero: "contentLengthOf u = Some 0"
    by (rule contentLengthOf_absent [OF assms(7)])
  have small: "\<not> numGreater (contentLengthOf u) MAX_FILE_SIZE_BYTES"
    by (simp add: zero numGreater_def MAX_FILE_SIZE_BYTES_def)
  have e: "\<exists>b. body r = BytesBody b" if "proxyRequest_emit pf ?u' ?url (normalizePath subpath) origin = Inr r" for r
    using emit_no_json [OF that] by blast
  have never: "memberOf (fst (proxyRequest pf request sourceBaseUrl subpath origin)) ''error''
      \<noteq> Some (JString ''File too large'')"
    unfolding conf miss using small
    by (auto simp add: Let_def memberOf_def jsonMembers_def jsonResponse_def dest: e
        split: option.splits sum.splits)
  have put: "snd (proxyRequest pf request sourceBaseUrl subpath origin) =
      [Fetch ?url, CachePut (NewRequest ?url request) ?u']" if "up_status u = 200"
    unfolding conf miss using small that
    by (simp add: Let_def ok_def split: option.splits sum.splits)
  have fwd: "status (fst (proxyRequest pf request sourceBaseUrl subpath origin)) = 200
      \<and> body (fst (proxyRequest pf request sourceBaseUrl subpath origin)) = BytesBody b"
    if "200 \<le> up_status u \<and> up_status u \<le> 299 \<and> up_body u = Inr b
      \<and> (up_status u = 200 \<longrightarrow> cache_put pf (NewRequest ?url request) ?u' = None)"
  proof -
    from that have k: "ok u"
      by (simp add: ok_def)
    from that obtain r where r: "fst ?t = Inr r" "status r = 200" "body r = BytesBody b"
      using try_miss_status [OF assms(4-6) k small, of b "normalizePath subpath" origin] by blast
    from r(1) obtain evs where "?t = (Inr r, evs)"
      by (cases ?t) simp
    then have "fst (proxyRequest pf request sourceBaseUrl subpath origin) = r"
      by (simp add: conf)
    with r show ?thesis
      by simp
  qed
  from zero small never put fwd show ?thesis
    by blast
qed


theorem C8_no_content_length_witness:
  "headersGet (up_headers (upstreamReply 200 [(''Content-Type'', ''text/javascript'')]))
      ''Content-Length'' = None
   \<and> status (fst (proxyRequest
        (servingPlatform (upstreamReply 200 [(''Content-Type'', ''text/javascript'')]))
        (sampleRequest ''GET'' ''/gs/gs.js'' None) (Some ''https://cdn.example.com/gs'')
        ''/gs.js'' None)) = 200
   \<and> body (fst (proxyRequest
        (servingPlatform (upstreamReply 200 [(''Content-Type'', ''text/javascript'')]))
        (sampleRequest ''GET'' ''/gs/gs.js'' None) (Some ''https://cdn.example.com/gs'')
        ''/gs.js'' None)) = BytesBody [1, 2, 3]"
proof -
  let ?u = "upstreamReply 200 [(''Content-Type'', ''text/javascript'')]"
  let ?pf = "servingPlatform ?u"
  let ?rq = "sampleRequest ''GET'' ''/gs/gs.js'' None"
  let ?base = "''https://cdn.example.com/gs''"
  have ne: "?base \<noteq> []"
    by simp
  have np: "normalizePath ''/gs.js'' = ''/gs.js''"
    by (simp add: normalizePath_def startsWith_def)
  have al: "isAllowedFile (normalizePath ''/gs.js'')"
    by (simp add: np isAllowedFile_js)
  have h: "url_hostname ?pf (normalizeBase ?base @ normalizePath ''/gs.js'') = Inr ''cdn.example.com''"
    and c: "cache_match ?pf (NewRequest (normalizeBase ?base @ normalizePath ''/gs.js'') ?rq) = Inr None"
    and f: "net_fetch ?pf (normalizeBase ?base @ normalizePath ''/gs.js'') = Inr ?u"
    by (simp_all add: servingPlatform_def)
  have no: "headersGet (up_headers ?u) ''Content-Length'' = None"
    by (simp add: upstreamReply_def headersGet_def toLowerCase_def lowerChar_def)
  have st: "up_status ?u = 200" and bd: "up_body ?u = Inr [1, 2, 3]"
    by (simp_all add: upstreamReply_def)
  have p: "cache_put ?pf k v = None" for k v
    by (simp add: servingPlatform_def)
  from C8_no_content_length [OF refl ne al h c f no, of None "[1, 2, 3]"] no
  show ?thesis
    by (simp add: st bd p)
qed





subsection \<open>The file-type gate\<close>

lemma extensionOf_dot: "CHR ''.'' \<notin> set e \<Longrightarrow> extensionOf (q @ CHR ''.'' # e) = e"
proof -
  assume "CHR ''.'' \<notin> set e"
  then have "takeWhile (\<lambda>c. c \<noteq> CHR ''.'') (rev e @ CHR ''.'' # rev q) =
      rev e @ takeWhile (\<lambda>c. c \<noteq> CHR ''.'') (CHR ''.'' # rev q)"
    by (intro takeWhile_append2) auto
  then show ?thesis
    by (simp add: extensionOf_def)
qed

lemma isAllowedFile_gate: "isAllowedFile p = gateAdmits p"
proof (cases "CHR ''.'' \<in> set p")
  case False
  then show ?thesis
    by (simp add: isAllowedFile_def gateAdmits_def includesStr_char)
next
  case True
  then obtain q e where p: "p = q @ CHR ''.'' # e" and e: "CHR ''.'' \<notin> set e"
    by (auto dest: split_list_last)
  show ?thesis
    using True
    by (simp add: isAllowedFile_def gateAdmits_def includesStr_char endsWith_suffix
        p fileExt_dot [OF e] extensionOf_dot [OF e])
qed

lemma executable_rejected:
  assumes "suffix ''.exe'' p \<or> suffix ''.bat'' p"
  shows "\<not> isAllowedFile p"
proof -
  from assms obtain q e where p: "p = q @ CHR ''.'' # e" and e: "e = ''exe'' \<or> e = ''bat''"
    by (auto simp add: suffix_def)
  from e have nd: "CHR ''.'' \<notin> set e"
    by auto
  from e show ?thesis
    by (auto simp add: isAllowedFile_def p fileExt_dot [OF nd] includesStr_char endsWith_def
        toLowerCase_def lowerChar_def ALLOWED_EXTENSIONS_def)
qed

lemma proxyRequest_rejected:
  assumes "sourceBaseUrl = Some base" and "base \<noteq> []"
    and "\<not> isAllowedFile (normalizePath subpath)"
  shows "proxyRequest pf request sourceBaseUrl subpath origin =
     (jsonResponse 403
        [(''error'', JString ''Forbidden file type''),
         (''message'', JString ''Only WASM-related file types are allowed.'')]
        origin, [])"
  using assms by (simp add: proxyRequest_def Let_def)

lemma dispatch_proxy:
  assumes "req_pathname request = route @ subpath"
    and "startsWith subpath ''/''"
    and "(route = ''/libreoffice'' \<and> src = LIBREOFFICE_SOURCE env
            \<and> \<not> endsWith subpath ''.wasm'' \<and> \<not> endsWith subpath ''.data''
            \<and> \<not> endsWith subpath ''.gz'')
         \<or> (route = ''/pymupdf'' \<and> src = PYMUPDF_SOURCE env)
         \<or> (route = ''/gs'' \<and> src = GS_SOURCE env)
         \<or> (route = ''/cpdf'' \<and> src = CPDF_SOURCE env)"
  shows "dispatch pf env request origin = proxyRequest pf request src subpath origin"
proof -
  from assms(2) obtain rest where s: "subpath = CHR ''/'' # rest"
    by (cases subpath) (auto simp add: startsWith_def)
  have r: "replaceFirst (req_pathname request) route [] = subpath"
    by (simp add: assms(1) replaceFirst_prefix)
  from assms(3) show ?thesis
  proof (elim disjE conjE)
    assume a: "route = ''/libreoffice''" "src = LIBREOFFICE_SOURCE env"
      "\<not> endsWith subpath ''.wasm''" "\<not> endsWith subpath ''.data''" "\<not> endsWith subpath ''.gz''"
    have p: "startsWith (req_pathname request) ''/libreoffice/''"
      by (simp add: assms(1) a(1) s startsWith_def)
    show ?thesis
      using r a unfolding dispatch_def Let_def by (simp only: p if_True if_False simp_thms)
  next
    assume a: "route = ''/pymupdf''" "src = PYMUPDF_SOURCE env"
    have p: "\<not> startsWith (req_pathname request) ''/libreoffice/''"
        "startsWith (req_pathname request) ''/pymupdf/''"
      by (simp_all add: assms(1) a(1) s startsWith_def)
    show ?thesis
      using r a unfolding dispatch_def Let_def by (simp only: p if_True if_False simp_thms)
  next
    assume a: "route = ''/gs''" "src = GS_SOURCE env"
    have p: "\<not> startsWith (req_pathname request) ''/libreoffice/''"
        "\<not> startsWith (req_pathname request) ''/pymupdf/''"
        "startsWith (req_pathname request) ''/gs/''"
      by (simp_all add: assms(1) a(1) s startsWith_def)
    show ?thesis
      using r a unfolding dispatch_def Let_def by (simp only: p if_True if_False simp_thms)
  next
    assume a: "route = ''/cpdf''" "src = CPDF_SOURCE env"
    have p: "\<not> startsWith (req_pathname request) ''/libreoffice/''"
        "\<not> startsWith (req_pathname request) ''/pymupdf/''"
        "\<not> startsWith (req_pathname request) ''/gs/''"
        "startsWith (req_pathname request) ''/cpdf/''"
      by (simp_all add: assms(1) a(1) s startsWith_def)
    show ?thesis
      using r a unfolding dispatch_def Let_def by (simp only: p if_True if_False simp_thms)
  qed
qed


text \<open>
  Claim C7, as stated, fails: the cache-aware fetcher checks that the source is
  configured before it runs the gate, so a \<open>.exe\<close> subpath on a route whose source is
  not configured is answered with 503, not 403.
\<close>

theorem C7_counterexample:
  "\<not> gateAdmits ''/tool.exe''
   \<and> req_pathname (sampleRequest ''GET'' ''/cpdf/tool.exe'' None) = ''/cpdf'' @ ''/tool.exe''
   \<and> status (resp (fetch (servingPlatform (upstreamReply 200 [])) (sampleEnv None)
        (sampleRequest ''GET'' ''/cpdf/tool.exe'' None))) = 503"
proof -
  let ?rq = "sampleRequest ''GET'' ''/cpdf/tool.exe'' None"
  have g: "\<not> gateAdmits ''/tool.exe''"
    using executable_rejected [of "''/tool.exe''"]
    by (simp add: isAllowedFile_gate suffix_to_prefix)
  have m: "req_method ?rq = ''GET'' \<or> req_method ?rq = ''HEAD''"
    and o: "isAllowedOrigin (req_Origin ?rq)"
    and p: "req_pathname ?rq = ''/cpdf'' @ ''/tool.exe''"
    by (simp_all add: sampleRequest_def isAllowedOrigin_def)
  have k: "RATE_LIMIT_KV (sampleEnv None) = None"
    by (simp add: sampleEnv_def)
  have s: "startsWith ''/tool.exe'' ''/''"
    by (simp add: startsWith_def)
  have d: "dispatch (servingPlatform (upstreamReply 200 [])) (sampleEnv None) ?rq (req_Origin ?rq) =
      proxyRequest (servingPlatform (upstreamReply 200 [])) ?rq (CPDF_SOURCE (sampleEnv None))
        ''/tool.exe'' (req_Origin ?rq)"
    by (rule dispatch_proxy [OF p s]) simp
  have "resp (fetch (servingPlatform (upstreamReply 200 [])) (sampleEnv None) ?rq) =
      fst (proxyRequest (servingPlatform (upstreamReply 200 [])) ?rq (CPDF_SOURCE (sampleEnv None))
        ''/tool.exe'' (req_Origin ?rq))"
    using fetch_dispatch(1) [OF m o, where env = "sampleEnv None"
        and pf = "servingPlatform (upstreamReply 200 [])"]
    by (simp add: k d)
  then have "status (resp (fetch (servingPlatform (upstreamReply 200 [])) (sampleEnv None) ?rq)) = 503"
    by (simp add: proxyRequest_def sampleEnv_def jsonResponse_def)
  with g p show ?thesis
    by simp
qed

text \<open>
  Claim C7, amended. The gate admits a path exactly when its extension (what follows
  the last \<open>.\<close>, in lower case) is on the allow-list, or the path has no \<open>.\<close>, or the
  path ends in \<open>/\<close>. Any other subpath that reaches the cache-aware fetcher with a
  configured source is rejected with 403 and nothing is fetched. In particular a
  \<open>GET\<close> or \<open>HEAD\<close> request past the guards for a subpath ending in \<open>.exe\<close> or \<open>.bat\<close>, on
  any of the four routes with its source configured, gets 403.
\<close>

theorem C7_file_type_gate:
  "isAllowedFile p = gateAdmits p
   \<and> (sourceBaseUrl = Some base \<and> base \<noteq> [] \<and> \<not> gateAdmits (normalizePath subpath)
      \<longrightarrow> status (fst (proxyRequest pf request sourceBaseUrl subpath origin)) = 403
        \<and> snd (proxyRequest pf request sourceBaseUrl subpath origin) = [])
   \<and> ((req_method request = ''GET'' \<or> req_method request = ''HEAD'')
      \<and> isAllowedOrigin (req_Origin request)
      \<and> (case RATE_LIMIT_KV env of
           None \<Rightarrow> True
         | Some kv \<Rightarrow>
             length (filter (\<lambda>t. now pf - t < 60000) (storedRequests kv (rateLimitKey request))) < 100)
      \<and> req_pathname request = route @ rest \<and> startsWith rest ''/''
      \<and> (suffix ''.exe'' rest \<or> suffix ''.bat'' rest)
      \<and> (route = ''/libreoffice'' \<and> LIBREOFFICE_SOURCE env = Some base
          \<or> route = ''/pymupdf'' \<and> PYMUPDF_SOURCE env = Some base
          \<or> route = ''/gs'' \<and> GS_SOURCE env = Some base
          \<or> route = ''/cpdf'' \<and> CPDF_SOURCE env = Some base)
      \<and> base \<noteq> []
      \<longrightarrow> status (resp (fetch pf env request)) = 403 \<and> events (fetch pf env request) = [])"
proof (intro conjI impI)
  show "isAllowedFile p = gateAdmits p"
    by (rule isAllowedFile_gate)
next
  assume a: "sourceBaseUrl = Some base \<and> base \<noteq> [] \<and> \<not> gateAdmits (normalizePath subpath)"
  then have "proxyRequest pf request sourceBaseUrl subpath origin =
     (jsonResponse 403
        [(''error'', JString ''Forbidden file type''),
         (''message'', JString ''Only WASM-related file types are allowed.'')]
        origin, [])"
    using proxyRequest_rejected [of sourceBaseUrl base subpath pf request origin]
    by (simp add: isAllowedFile_gate)
  then show "status (fst (proxyRequest pf request sourceBaseUrl subpath origin)) = 403"
    and "snd (proxyRequest pf request sourceBaseUrl subpath origin) = []"
    by (simp_all add: jsonResponse_def)
next
  assume a: "(req_method request = ''GET'' \<or> req_method request = ''HEAD'')
      \<and> isAllowedOrigin (req_Origin request)
      \<and> (case RATE_LIMIT_KV env of
           None \<Rightarrow> True
         | Some kv \<Rightarrow>
             length (filter (\<lambda>t. now pf - t < 60000) (storedRequests kv (rateLimitKey request))) < 100)
      \<and> req_pathname request = route @ rest \<and> startsWith rest ''/''
      \<and> (suffix ''.exe'' rest \<or> suffix ''.bat'' rest)
      \<and> (route = ''/libreoffice'' \<and> LIBREOFFICE_SOURCE env = Some base
          \<or> route = ''/pymupdf'' \<and> PYMUPDF_SOURCE env = Some base
          \<or> route = ''/gs'' \<and> GS_SOURCE env = Some base
          \<or> route = ''/cpdf'' \<and> CPDF_SOURCE env = Some base)
      \<and> base \<noteq> []"
  then have ex: "suffix ''.exe'' rest \<or> suffix ''.bat'' rest"
    by blast
  have np: "normalizePath rest = rest"
    using a by (simp add: normalizePath_def)
  have rej: "\<not> isAllowedFile (normalizePath rest)"
    unfolding np by (rule executable_rejected [OF ex])
  have nogz: "\<not> endsWith rest ''.wasm''" "\<not> endsWith rest ''.data''" "\<not> endsWith rest ''.gz''"
  proof -
    from ex obtain q where "rest = q @ ''.exe'' \<or> rest = q @ ''.bat''"
      by (auto simp add: suffix_def)
    then show "\<not> endsWith rest ''.wasm''" "\<not> endsWith rest ''.data''" "\<not> endsWith rest ''.gz''"
      by (auto simp add: endsWith_def)
  qed
  have d: "dispatch pf env request (req_Origin request) =
      proxyRequest pf request (Some base) rest (req_Origin request)"
  proof (rule dispatch_proxy [where route = route])
    from a show "req_pathname request = route @ rest" and "startsWith rest ''/''"
      by blast+
    from a have "route = ''/libreoffice'' \<and> LIBREOFFICE_SOURCE env = Some base
          \<or> route = ''/pymupdf'' \<and> PYMUPDF_SOURCE env = Some base
          \<or> route = ''/gs'' \<and> GS_SOURCE env = Some base
          \<or> route = ''/cpdf'' \<and> CPDF_SOURCE env = Some base"
      by blast
    with nogz show "(route = ''/libreoffice'' \<and> Some base = LIBREOFFICE_SOURCE env
            \<and> \<not> endsWith rest ''.wasm'' \<and> \<not> endsWith rest ''.data''
            \<and> \<not> endsWith rest ''.gz'')
         \<or> (route = ''/pymupdf'' \<and> Some base = PYMUPDF_SOURCE env)
         \<or> (route = ''/gs'' \<and> Some base = GS_SOURCE env)
         \<or> (route = ''/cpdf'' \<and> Some base = CPDF_SOURCE env)"
      by metis
  qed
  have "proxyRequest pf request (Some base) rest (req_Origin request) =
     (jsonResponse 403
        [(''error'', JString ''Forbidden file type''),
         (''message'', JString ''Only WASM-related file types are allowed.'')]
        (req_Origin request), [])"
    using a rej proxyRequest_rejected [of "Some base" base rest pf request "req_Origin request"]
    by simp
  then have r: "dispatch pf env request (req_Origin request) =
     (jsonResponse 403
        [(''error'', JString ''Forbidden file type''),
         (''message'', JString ''Only WASM-related file types are allowed.'')]
        (req_Origin request), [])"
    by (simp only: d)
  from a have g: "req_method request = ''GET'' \<or> req_method request = ''HEAD''"
      "isAllowedOrigin (req_Origin request)"
      "case RATE_LIMIT_KV env of
           None \<Rightarrow> True
         | Some kv \<Rightarrow>
             length (filter (\<lambda>t. now pf - t < 60000) (storedRequests kv (rateLimitKey request))) < 100"
    by blast+
  show "status (resp (fetch pf env request)) = 403"
    and "events (fetch pf env request) = []"
    unfolding fetch_dispatch [OF g] r by (simp_all add: jsonResponse_def)
qed

theorem C7_file_type_gate_witness:
  "\<not> gateAdmits ''/tool.exe''
   \<and> status (resp (fetch (servingPlatform (upstreamReply 200 [])) (sampleEnv None)
        (sampleRequest ''GET'' ''/gs/tool.exe'' None))) = 403
   \<and> events (fetch (servingPlatform (upstreamReply 200 [])) (sampleEnv None)
        (sampleRequest ''GET'' ''/gs/tool.exe'' None)) = []"
proof -
  let ?pf = "servingPlatform (upstreamReply 200 [])"
  let ?rq = "sampleRequest ''GET'' ''/gs/tool.exe'' None"
  have rq: "req_method ?rq = ''GET''" "isAllowedOrigin (req_Origin ?rq)"
      "req_pathname ?rq = ''/gs'' @ ''/tool.exe''"
    by (simp_all add: sampleRequest_def isAllowedOrigin_def)
  have ev: "RATE_LIMIT_KV (sampleEnv None) = None"
      "GS_SOURCE (sampleEnv None) = Some ''https://cdn.example.com/gs''"
    by (simp_all add: sampleEnv_def)
  have sx: "startsWith ''/tool.exe'' ''/''" "suffix ''.exe'' ''/tool.exe''"
    by (simp_all add: startsWith_def suffix_to_prefix)
  note t = C7_file_type_gate [where p = "''/tool.exe''" and pf = ?pf and env = "sampleEnv None"
      and request = ?rq and route = "''/gs''" and rest = "''/tool.exe''"
      and base = "''https://cdn.example.com/gs''" and sourceBaseUrl = "Some ''https://cdn.example.com/gs''"
      and subpath = "''/tool.exe''"]
  have one: "\<not> gateAdmits ''/tool.exe''"
    using t [THEN conjunct1] executable_rejected [of "''/tool.exe''"] sx(2) by simp
  have two: "status (resp (fetch ?pf (sampleEnv None) ?rq)) = 403
      \<and> events (fetch ?pf (sampleEnv None) ?rq) = []"
    by (rule t [THEN conjunct2, THEN conjunct2, THEN mp]) (simp add: rq ev sx)
  from one two show ?thesis
    by simp
qed

subsection \<open>Error bodies\<close>

lemma jsonResponse_shape:
  assumes "''error'' \<in> fst ` set ms" and "''message'' \<in> fst ` set ms"
  shows "errorShape (jsonResponse st ms origin)"
  using assms by (simp add: errorShape_def hasMember_def jsonMembers_def jsonResponse_def)

lemma mirror_shape:
  assumes "''error'' \<in> fst ` set ms" and "''status'' \<in> fst ` set ms"
    and "''targetUrl'' \<in> fst ` set ms"
  shows "errorShape (jsonResponse st ms origin)"
  using assms by (simp add: errorShape_def hasMember_def jsonMembers_def jsonResponse_def)

lemma try_shape:
  assumes "fst (proxyRequest_try pf request url path origin) = Inr r" and "400 \<le> status r"
  shows "errorShape r"
proof -
  have e: "False" if "proxyRequest_emit pf c url path origin = Inr r" for c
    using emit_no_json [OF that] assms(2) by simp
  from assms(1) show ?thesis
    unfolding proxyRequest_try_def Let_def
    by (auto simp add: mirror_shape jsonResponse_shape dest: e
        split: sum.splits option.splits if_splits)
qed

lemma proxyRequest_shape:
  assumes "400 \<le> status (fst (proxyRequest pf request sourceBaseUrl subpath origin))"
  shows "errorShape (fst (proxyRequest pf request sourceBaseUrl subpath origin))"
proof (cases "\<exists>base. sourceBaseUrl = Some base \<and> base \<noteq> [] \<and> isAllowedFile (normalizePath subpath)")
  case True
  then obtain base where c: "sourceBaseUrl = Some base" "base \<noteq> []"
      "isAllowedFile (normalizePath subpath)"
    by blast
  let ?t = "proxyRequest_try pf request (normalizeBase base @ normalizePath subpath)
      (normalizePath subpath) origin"
  obtain res evs where t: "?t = (res, evs)"
    by (cases ?t)
  show ?thesis
  proof (cases res)
    case (Inl e)
    with t show ?thesis
      by (simp add: proxyRequest_configured [OF c] jsonResponse_shape)
  next
    case (Inr r)
    with t have "fst (proxyRequest pf request sourceBaseUrl subpath origin) = r"
      by (simp add: proxyRequest_configured [OF c])
    moreover from t Inr have "fst ?t = Inr r"
      by simp
    ultimately show ?thesis
      using assms try_shape by metis
  qed
next
  case False
  then show ?thesis
    by (auto simp add: proxyRequest_def Let_def jsonResponse_shape split: option.splits)
qed

lemma unconfigured_shape:
  "errorShape (jsonResponse 503 [(''error'', JString ''Source not configured'')] origin)"
  by (simp add: errorShape_def jsonMembers_def jsonResponse_def)

lemma gz_try_shape:
  assumes "fst (proxyLibreOfficeGz_try pf url subpath origin) = Inr r" and "400 \<le> status r"
  shows "errorShape r"
  using assms unfolding proxyLibreOfficeGz_try_def Let_def
  by (auto simp add: mirror_shape split: sum.splits option.splits if_splits)

lemma gz_shape:
  assumes "400 \<le> status (fst (proxyLibreOfficeGz pf request sourceBaseUrl subpath origin))"
  shows "errorShape (fst (proxyLibreOfficeGz pf request sourceBaseUrl subpath origin))"
proof (cases "\<exists>base. sourceBaseUrl = Some base \<and> base \<noteq> []")
  case True
  then obtain base where c: "sourceBaseUrl = Some base" "base \<noteq> []"
    by blast
  let ?t = "proxyLibreOfficeGz_try pf (normalizeBase base @ normalizePath subpath) subpath origin"
  obtain res evs where t: "?t = (res, evs)"
    by (cases ?t)
  show ?thesis
  proof (cases res)
    case (Inl e)
    with t c show ?thesis
      by (simp add: proxyLibreOfficeGz_def Let_def jsonResponse_shape)
  next
    case (Inr r)
    with t c have "fst (proxyLibreOfficeGz pf request sourceBaseUrl subpath origin) = r"
      by (simp add: proxyLibreOfficeGz_def Let_def)
    moreover from t Inr have "fst ?t = Inr r"
      by simp
    ultimately show ?thesis
      using assms gz_try_shape by metis
  qed
next
  case False
  then show ?thesis
    by (auto simp add: proxyLibreOfficeGz_def Let_def unconfigured_shape split: option.splits)
qed

lemma dispatch_cases:
  "(\<exists>src sub. dispatch pf env request origin = proxyLibreOfficeGz pf request src sub origin)
   \<or> (\<exists>src sub. dispatch pf env request origin = proxyRequest pf request src sub origin)
   \<or> dispatch pf env request origin = (healthResponse env origin, [])
   \<or> dispatch pf env request origin =
        (jsonResponse 404
           [(''error'', JString ''Not Found''),
            (''message'', JString ''Use /libreoffice/*, /pymupdf/*, /gs/*, or /cpdf/* endpoints'')]
           origin, [])"
  unfolding dispatch_def Let_def by (simp only: split: if_split) blast

lemma dispatch_shape:
  assumes "400 \<le> status (fst (dispatch pf env request origin))"
  shows "errorShape (fst (dispatch pf env request origin))"
proof -
  from dispatch_cases [of pf env request origin] consider
    (gz) src sub where "dispatch pf env request origin = proxyLibreOfficeGz pf request src sub origin"
  | (px) src sub where "dispatch pf env request origin = proxyRequest pf request src sub origin"
  | (health) "dispatch pf env request origin = (healthResponse env origin, [])"
  | (nf) "dispatch pf env request origin =
        (jsonResponse 404
           [(''error'', JString ''Not Found''),
            (''message'', JString ''Use /libreoffice/*, /pymupdf/*, /gs/*, or /cpdf/* endpoints'')]
           origin, [])"
    by blast
  then show ?thesis
  proof cases
    case gz
    with assms show ?thesis
      by (simp add: gz_shape)
  next
    case px
    with assms show ?thesis
      by (simp add: proxyRequest_shape)
  next
    case health
    with assms show ?thesis
      by (simp add: healthResponse_def jsonResponse_def)
  next
    case nf
    then show ?thesis
      by (simp add: jsonResponse_shape)
  qed
qed

lemma fetch_cases:
  "resp (fetch pf env request) = handleOptions request
   \<or> resp (fetch pf env request) =
        \<lparr>status = 403,
         headers = (''Content-Type'', ''application/json'') # corsHeaders (req_Origin request),
         body = JsonBody
           [(''error'', JString ''Forbidden''),
            (''message'', JString
               ''Origin not allowed. Add your domain to ALLOWED_ORIGINS if self-hosting.'')],
         encodeBody = None\<rparr>
   \<or> resp (fetch pf env request) =
        \<lparr>status = 405, headers = corsHeaders (req_Origin request),
         body = TextBody ''Method not allowed'', encodeBody = None\<rparr>
   \<or> resp (fetch pf env request) =
        \<lparr>status = 429,
         headers = corsHeaders (req_Origin request) @
           [(''Content-Type'', ''application/json''), (''Retry-After'', ''60'')],
         body = JsonBody
           [(''error'', JString ''Rate limit exceeded''),
            (''message'', JString ''Maximum 100 requests per minute.'')],
         encodeBody = None\<rparr>
   \<or> resp (fetch pf env request) = fst (dispatch pf env request (req_Origin request))"
  unfolding fetch_def Let_def rateLimit_outcome
  by (simp split: option.split prod.split)

lemma fetch_shape:
  assumes "400 \<le> status (resp (fetch pf env request))"
  shows "errorShape (resp (fetch pf env request))"
  using fetch_cases [of pf env request]
proof (elim disjE)
  assume "resp (fetch pf env request) = fst (dispatch pf env request (req_Origin request))"
  with assms show ?thesis
    by (simp add: dispatch_shape)
qed (use assms in \<open>simp_all add: handleOptions_def errorShape_def hasMember_def jsonMembers_def\<close>)


lemma gz_miss:
  assumes "sourceBaseUrl = Some base" and "base \<noteq> []"
    and "net_fetch pf (normalizeBase base @ normalizePath subpath) = Inr u"
    and "\<not> ok u" and "responseInitError (up_status u) = None"
  shows "fst (proxyLibreOfficeGz pf request sourceBaseUrl subpath origin) =
     jsonResponse (up_status u)
       [(''error'', JString ''Failed to fetch''),
        (''status'', JNumber (int (up_status u))),
        (''targetUrl'', JString (normalizeBase base @ normalizePath subpath))]
       origin"
  using assms by (simp add: proxyLibreOfficeGz_def proxyLibreOfficeGz_try_def Let_def)

text \<open>
  Claim C2, as stated, fails: the 405 of the method gate has the plain text
  \<open>Method not allowed\<close> as its body, not JSON; the 503 of the compression-preserving
  fetcher and the mirror of an upstream 404 have an \<open>error\<close> member but no \<open>message\<close>;
  and the mirror built by the compression-preserving fetcher has no \<open>statusText\<close>.
\<close>

theorem C2_counterexample:
  "400 \<le> status (resp (fetch (servingPlatform (upstreamReply 200 [])) (sampleEnv None)
      (sampleRequest ''POST'' ''/health'' None)))
   \<and> body (resp (fetch (servingPlatform (upstreamReply 200 [])) (sampleEnv None)
      (sampleRequest ''POST'' ''/health'' None))) = TextBody ''Method not allowed''
   \<and> \<not> hasMember (resp (fetch (servingPlatform (upstreamReply 200 [])) (sampleEnv None)
      (sampleRequest ''POST'' ''/health'' None))) ''error''
   \<and> 400 \<le> status (fst (proxyLibreOfficeGz (servingPlatform (upstreamReply 200 []))
      (sampleRequest ''GET'' ''/libreoffice/soffice.wasm'' None) None ''/soffice.wasm.gz'' None))
   \<and> \<not> hasMember (fst (proxyLibreOfficeGz (servingPlatform (upstreamReply 200 []))
      (sampleRequest ''GET'' ''/libreoffice/soffice.wasm'' None) None ''/soffice.wasm.gz'' None))
        ''message''
   \<and> status (fst (proxyRequest (servingPlatform (upstreamReply 404 []))
      (sampleRequest ''GET'' ''/gs/gs.js'' None) (Some ''https://cdn.example.com/gs'')
      ''/gs.js'' None)) = 404
   \<and> \<not> hasMember (fst (proxyRequest (servingPlatform (upstreamReply 404 []))
      (sampleRequest ''GET'' ''/gs/gs.js'' None) (Some ''https://cdn.example.com/gs'')
      ''/gs.js'' None)) ''message''
   \<and> status (fst (proxyLibreOfficeGz (servingPlatform (upstreamReply 404 []))
      (sampleRequest ''GET'' ''/libreoffice/soffice.wasm'' None)
      (Some ''https://cdn.example.com/libreoffice'') ''/soffice.wasm.gz'' None)) = 404
   \<and> \<not> hasMember (fst (proxyLibreOfficeGz (servingPlatform (upstreamReply 404 []))
      (sampleRequest ''GET'' ''/libreoffice/soffice.wasm'' None)
      (Some ''https://cdn.example.com/libreoffice'') ''/soffice.wasm.gz'' None)) ''statusText''"
proof -
  let ?ok = "servingPlatform (upstreamReply 200 [])"
  let ?u = "upstreamReply 404 []"
  let ?pf = "servingPlatform ?u"
  let ?post = "sampleRequest ''POST'' ''/health'' None"
  let ?rq = "sampleRequest ''GET'' ''/gs/gs.js'' None"
  let ?lo = "sampleRequest ''GET'' ''/libreoffice/soffice.wasm'' None"
  have refused: "400 \<le> status (resp (fetch ?ok (sampleEnv None) ?post))"
      "body (resp (fetch ?ok (sampleEnv None) ?post)) = TextBody ''Method not allowed''"
      "\<not> hasMember (resp (fetch ?ok (sampleEnv None) ?post)) ''error''"
    by (simp_all add: fetch_def sampleRequest_def isAllowedOrigin_def hasMember_def jsonMembers_def)
  have bare: "400 \<le> status (fst (proxyLibreOfficeGz ?ok ?lo None ''/soffice.wasm.gz'' None))"
      "\<not> hasMember (fst (proxyLibreOfficeGz ?ok ?lo None ''/soffice.wasm.gz'' None)) ''message''"
    by (simp_all add: proxyLibreOfficeGz_def jsonResponse_def hasMember_def jsonMembers_def)
  have pf: "url_hostname ?pf x = Inr ''cdn.example.com''" "cache_match ?pf k = Inr None"
      "net_fetch ?pf x = Inr ?u" for x k
    by (simp_all add: servingPlatform_def)
  have u: "\<not> ok ?u" "responseInitError (up_status ?u) = None" "up_status ?u = 404"
    by (simp_all add: upstreamReply_def ok_def responseInitError_def)
  have al: "isAllowedFile (normalizePath ''/gs.js'')"
    by (simp add: normalizePath_def startsWith_def isAllowedFile_js)
  have "fst (proxyRequest ?pf ?rq (Some ''https://cdn.example.com/gs'') ''/gs.js'' None) =
      jsonResponse 404
        [(''error'', JString ''Failed to fetch resource''),
         (''status'', JNumber 404),
         (''statusText'', JString (up_statusText ?u)),
         (''targetUrl'', JString (normalizeBase ''https://cdn.example.com/gs'' @ normalizePath ''/gs.js''))]
        None"
    by (simp add: proxyRequest_configured [OF refl _ al] try_miss [OF pf(1) pf(2) pf(3)] u
        responseInitError_def)
  then have mirror: "status (fst (proxyRequest ?pf ?rq (Some ''https://cdn.example.com/gs'') ''/gs.js'' None)) = 404"
      "\<not> hasMember (fst (proxyRequest ?pf ?rq (Some ''https://cdn.example.com/gs'') ''/gs.js'' None)) ''message''"
    by (simp_all add: jsonResponse_def hasMember_def jsonMembers_def)
  have "fst (proxyLibreOfficeGz ?pf ?lo (Some ''https://cdn.example.com/libreoffice'')
        ''/soffice.wasm.gz'' None) =
      jsonResponse (up_status ?u)
        [(''error'', JString ''Failed to fetch''),
         (''status'', JNumber (int (up_status ?u))),
         (''targetUrl'', JString (normalizeBase ''https://cdn.example.com/libreoffice'' @
            normalizePath ''/soffice.wasm.gz''))]
        None"
    by (rule gz_miss [OF refl _ pf(3) u(1) u(2)]) simp
  then have gz: "status (fst (proxyLibreOfficeGz ?pf ?lo (Some ''https://cdn.example.com/libreoffice'')
        ''/soffice.wasm.gz'' None)) = 404"
      "\<not> hasMember (fst (proxyLibreOfficeGz ?pf ?lo (Some ''https://cdn.example.com/libreoffice'')
        ''/soffice.wasm.gz'' None)) ''statusText''"
    by (simp_all add: jsonResponse_def hasMember_def jsonMembers_def u(3))
  from refused bare mirror gz show ?thesis
    by blast
qed

text \<open>
  Claim C2, amended. Every response of the handler with a status of 400 or more is
  either the plain-text 405 of the method gate or has a JSON body with an \<open>error\<close>
  member, together with a \<open>message\<close> member, or with \<open>status\<close> and \<open>targetUrl\<close> members, or
  alone in the body of the \<open>Source not configured\<close> answer of the compression-preserving
  fetcher. A response that mirrors a non-success upstream status has exactly the members
  \<open>error\<close>, \<open>status\<close>, \<open>statusText\<close>, \<open>targetUrl\<close> when it comes from the cache-aware fetcher
  and \<open>error\<close>, \<open>status\<close>, \<open>targetUrl\<close> when it comes from the compression-preserving one.
\<close>

theorem C2_error_bodies:
  "(400 \<le> status (resp (fetch pf env request)) \<longrightarrow>
      status (resp (fetch pf env request)) = 405
        \<and> body (resp (fetch pf env request)) = TextBody ''Method not allowed''
      \<or> hasMember (resp (fetch pf env request)) ''error''
        \<and> (hasMember (resp (fetch pf env request)) ''message''
           \<or> hasMember (resp (fetch pf env request)) ''status''
             \<and> hasMember (resp (fetch pf env request)) ''targetUrl''
           \<or> jsonMembers (resp (fetch pf env request)) =
               Some [(''error'', JString ''Source not configured'')]))
   \<and> (sourceBaseUrl = Some base \<and> base \<noteq> [] \<and> isAllowedFile (normalizePath subpath)
      \<and> url_hostname pf (normalizeBase base @ normalizePath subpath) = Inr host
      \<and> cache_match pf (NewRequest (normalizeBase base @ normalizePath subpath) request) = Inr None
      \<and> net_fetch pf (normalizeBase base @ normalizePath subpath) = Inr u
      \<and> \<not> (200 \<le> up_status u \<and> up_status u \<le> 299)
      \<and> responseInitError (up_status u) = None
      \<longrightarrow> status (fst (proxyRequest pf request sourceBaseUrl subpath origin)) = up_status u
        \<and> jsonMembers (fst (proxyRequest pf request sourceBaseUrl subpath origin)) =
            Some [(''error'', JString ''Failed to fetch resource''),
                  (''status'', JNumber (int (up_status u))),
                  (''statusText'', JString (up_statusText u)),
                  (''targetUrl'', JString (normalizeBase base @ normalizePath subpath))])
   \<and> (sourceBaseUrl = Some base \<and> base \<noteq> []
      \<and> net_fetch pf (normalizeBase base @ normalizePath subpath) = Inr u
      \<and> \<not> (200 \<le> up_status u \<and> up_status u \<le> 299)
      \<and> responseInitError (up_status u) = None
      \<longrightarrow> status (fst (proxyLibreOfficeGz pf request sourceBaseUrl subpath origin)) = up_status u
        \<and> jsonMembers (fst (proxyLibreOfficeGz pf request sourceBaseUrl subpath origin)) =
            Some [(''error'', JString ''Failed to fetch''),
                  (''status'', JNumber (int (up_status u))),
                  (''targetUrl'', JString (normalizeBase base @ normalizePath subpath))])"
proof (intro conjI impI)
  let ?url = "normalizeBase base @ normalizePath subpath"
  {
    assume "400 \<le> status (resp (fetch pf env request))"
    from fetch_shape [OF this]
    show "status (resp (fetch pf env request)) = 405
        \<and> body (resp (fetch pf env request)) = TextBody ''Method not allowed''
      \<or> hasMember (resp (fetch pf env request)) ''error''
        \<and> (hasMember (resp (fetch pf env request)) ''message''
           \<or> hasMember (resp (fetch pf env request)) ''status''
             \<and> hasMember (resp (fetch pf env request)) ''targetUrl''
           \<or> jsonMembers (resp (fetch pf env request)) =
               Some [(''error'', JString ''Source not configured'')])"
      unfolding errorShape_def by (auto simp add: hasMember_def)
  }
  {
    assume a: "sourceBaseUrl = Some base \<and> base \<noteq> [] \<and> isAllowedFile (normalizePath subpath)
      \<and> url_hostname pf ?url = Inr host
      \<and> cache_match pf (NewRequest ?url request) = Inr None
      \<and> net_fetch pf ?url = Inr u
      \<and> \<not> (200 \<le> up_status u \<and> up_status u \<le> 299)
      \<and> responseInitError (up_status u) = None"
    then have "fst (proxyRequest pf request sourceBaseUrl subpath origin) =
        jsonResponse (up_status u)
          [(''error'', JString ''Failed to fetch resource''),
           (''status'', JNumber (int (up_status u))),
           (''statusText'', JString (up_statusText u)),
           (''targetUrl'', JString ?url)]
          origin"
      by (simp add: proxyRequest_configured try_miss [of pf ?url host request u] ok_def)
    then show "status (fst (proxyRequest pf request sourceBaseUrl subpath origin)) = up_status u"
      and "jsonMembers (fst (proxyRequest pf request sourceBaseUrl subpath origin)) =
            Some [(''error'', JString ''Failed to fetch resource''),
                  (''status'', JNumber (int (up_status u))),
                  (''statusText'', JString (up_statusText u)),
                  (''targetUrl'', JString ?url)]"
      by (simp_all add: jsonResponse_def jsonMembers_def)
  }
  {
    assume a: "sourceBaseUrl = Some base \<and> base \<noteq> []
      \<and> net_fetch pf ?url = Inr u
      \<and> \<not> (200 \<le> up_status u \<and> up_status u \<le> 299)
      \<and> responseInitError (up_status u) = None"
    then have "fst (proxyLibreOfficeGz pf request sourceBaseUrl subpath origin) =
        jsonResponse (up_status u)
          [(''error'', JString ''Failed to fetch''),
           (''status'', JNumber (int (up_status u))),
           (''targetUrl'', JString ?url)]
          origin"
      using gz_miss [of sourceBaseUrl base pf subpath u request origin] by (simp add: ok_def)
    then show "status (fst (proxyLibreOfficeGz pf request sourceBaseUrl subpath origin)) = up_status u"
      and "jsonMembers (fst (proxyLibreOfficeGz pf request sourceBaseUrl subpath origin)) =
            Some [(''error'', JString ''Failed to fetch''),
                  (''status'', JNumber (int (up_status u))),
                  (''targetUrl'', JString ?url)]"
      by (simp_all add: jsonResponse_def jsonMembers_def)
  }
qed

theorem C2_error_bodies_witness:
  "status (fst (proxyRequest (servingPlatform (upstreamReply 404 []))
      (sampleRequest ''GET'' ''/gs/gs.js'' None) (Some ''https://cdn.example.com/gs'')
      ''/gs.js'' None)) = 404
   \<and> jsonMembers (fst (proxyRequest (servingPlatform (upstreamReply 404 []))
      (sampleRequest ''GET'' ''/gs/gs.js'' None) (Some ''https://cdn.example.com/gs'')
      ''/gs.js'' None)) =
     Some [(''error'', JString ''Failed to fetch resource''),
           (''status'', JNumber 404),
           (''statusText'', JString ''status text''),
           (''targetUrl'', JString ''https://cdn.example.com/gs/gs.js'')]"
proof -
  let ?u = "upstreamReply 404 []"
  let ?pf = "servingPlatform ?u"
  let ?rq = "sampleRequest ''GET'' ''/gs/gs.js'' None"
  let ?base = "''https://cdn.example.com/gs''"
  have np: "normalizePath ''/gs.js'' = ''/gs.js''"
    by (simp add: normalizePath_def startsWith_def)
  have nb: "normalizeBase ?base = ?base"
    by (simp add: normalizeBase_def endsWith_def)
  have pf: "url_hostname ?pf x = Inr ''cdn.example.com''" "cache_match ?pf k = Inr None"
      "net_fetch ?pf x = Inr ?u" for x k
    by (simp_all add: servingPlatform_def)
  have st: "up_status ?u = 404" "up_statusText ?u = ''status text''"
    by (simp_all add: upstreamReply_def)
  have ri: "responseInitError 404 = None"
    by (simp add: responseInitError_def)
  note t = C2_error_bodies [where sourceBaseUrl = "Some ?base" and base = ?base
      and subpath = "''/gs.js''" and pf = ?pf and host = "''cdn.example.com''" and u = ?u
      and request = ?rq and origin = None]
  have "status (fst (proxyRequest ?pf ?rq (Some ?base) ''/gs.js'' None)) = up_status ?u
      \<and> jsonMembers (fst (proxyRequest ?pf ?rq (Some ?base) ''/gs.js'' None)) =
          Some [(''error'', JString ''Failed to fetch resource''),
                (''status'', JNumber (int (up_status ?u))),
                (''statusText'', JString (up_statusText ?u)),
                (''targetUrl'', JString (normalizeBase ?base @ normalizePath ''/gs.js''))]"
    by (rule t [THEN conjunct2, THEN conjunct1, THEN mp])
      (simp add: np nb pf st ri isAllowedFile_js)
  then show ?thesis
    by (simp add: st np nb)
qed

end
